theory Spec2Isabelle
  imports Complex_Main "HOL-Library.AList" "HOL-Library.Multiset"
begin

section \<open>JavaScript values\<close>

text \<open>
  The controller (\<^verbatim>\<open>src/Controller/Logic.js\<close>) works on loosely typed request payloads
  and on documents of the order collection. Both are modelled as JavaScript values.
  A number is an exact rational or \<^verbatim>\<open>NaN\<close>: the rounding and the infinities of IEEE
  doubles are outside the model. A \<^verbatim>\<open>Date\<close> carries its epoch milliseconds, or nothing
  when it is an Invalid Date.
\<close>

datatype jsnum = NaN | Fin rat

datatype jsval =
    JUndef
  | JNull
  | JBool bool
  | JNum jsnum
  | JStr string
  | JDate "int option"
  | JArr "jsval list"
  | JObj "(string \<times> jsval) list"

text \<open>A document (a request body, an order of the collection): own properties by name.\<close>

type_synonym doc = "string \<rightharpoonup> jsval"

text \<open>\<^verbatim>\<open>Object.prototype.hasOwnProperty.call(d, k)\<close> and the property read \<^verbatim>\<open>d.k\<close>.\<close>

definition has :: "doc \<Rightarrow> string \<Rightarrow> bool" where
  "has d k = (d k \<noteq> None)"

definition get :: "doc \<Rightarrow> string \<Rightarrow> jsval" where
  "get d k = (case d k of None \<Rightarrow> JUndef | Some v \<Rightarrow> v)"

text \<open>
  The property read \<^verbatim>\<open>v.k\<close> (and \<^verbatim>\<open>v["k"]\<close>) on a value that is neither \<^verbatim>\<open>null\<close> nor
  \<^verbatim>\<open>undefined\<close>; on a primitive or an array the names used by the controller are
  undefined.
\<close>

definition js_prop :: "jsval \<Rightarrow> string \<Rightarrow> jsval" where
  "js_prop v k = (case v of
     JObj kvs \<Rightarrow> (case map_of kvs k of None \<Rightarrow> JUndef | Some x \<Rightarrow> x)
   | _ \<Rightarrow> JUndef)"

definition nullish :: "jsval \<Rightarrow> bool" where
  "nullish v = (v = JUndef \<or> v = JNull)"

text \<open>\<^verbatim>\<open>{...v, k: x}\<close> for an object \<^verbatim>\<open>v\<close>.\<close>

definition with_prop :: "jsval \<Rightarrow> string \<Rightarrow> jsval \<Rightarrow> jsval" where
  "with_prop v k x = (case v of
     JObj kvs \<Rightarrow> JObj (AList.update k x kvs)
   | _ \<Rightarrow> JObj [(k, x)])"

text \<open>Truthiness (\<^verbatim>\<open>!!v\<close>), the operator \<^verbatim>\<open>a || b\<close> and strict equality \<^verbatim>\<open>a === b\<close>.
  Two objects, arrays or dates are strictly equal only when they are the same reference;
  a value of the payload and a value of a stored document never are.\<close>

fun truthy :: "jsval \<Rightarrow> bool" where
  "truthy JUndef = False"
| "truthy JNull = False"
| "truthy (JBool b) = b"
| "truthy (JNum NaN) = False"
| "truthy (JNum (Fin r)) = (r \<noteq> 0)"
| "truthy (JStr s) = (s \<noteq> [])"
| "truthy (JDate t) = True"
| "truthy (JArr xs) = True"
| "truthy (JObj kvs) = True"

definition js_or :: "jsval \<Rightarrow> jsval \<Rightarrow> jsval" where
  "js_or a b = (if truthy a then a else b)"

fun strict_eq :: "jsval \<Rightarrow> jsval \<Rightarrow> bool" where
  "strict_eq JUndef b = (b = JUndef)"
| "strict_eq JNull b = (b = JNull)"
| "strict_eq (JBool x) b = (b = JBool x)"
| "strict_eq (JNum NaN) b = False"
| "strict_eq (JNum (Fin r)) b = (b = JNum (Fin r))"
| "strict_eq (JStr s) b = (b = JStr s)"
| "strict_eq (JDate t) b = False"
| "strict_eq (JArr xs) b = False"
| "strict_eq (JObj kvs) b = False"

subsection \<open>Numbers\<close>

fun num_add :: "jsnum \<Rightarrow> jsnum \<Rightarrow> jsnum" where
  "num_add (Fin a) (Fin b) = Fin (a + b)"
| "num_add _ _ = NaN"

fun num_sub :: "jsnum \<Rightarrow> jsnum \<Rightarrow> jsnum" where
  "num_sub (Fin a) (Fin b) = Fin (a - b)"
| "num_sub _ _ = NaN"

fun num_mul :: "jsnum \<Rightarrow> jsnum \<Rightarrow> jsnum" where
  "num_mul (Fin a) (Fin b) = Fin (a * b)"
| "num_mul _ _ = NaN"

text \<open>Division is only ever by the literal 100 in the controller.\<close>

fun num_div100 :: "jsnum \<Rightarrow> jsnum" where
  "num_div100 (Fin a) = Fin (a / 100)"
| "num_div100 NaN = NaN"

text \<open>\<^verbatim>\<open>n || 0\<close> on a number, and the comparisons \<^verbatim>\<open>n <= 0\<close>, \<^verbatim>\<open>n < 0\<close> (false on NaN).\<close>

fun num_or0 :: "jsnum \<Rightarrow> jsnum" where
  "num_or0 NaN = Fin 0"
| "num_or0 (Fin r) = Fin r"

fun num_le0 :: "jsnum \<Rightarrow> bool" where
  "num_le0 NaN = False"
| "num_le0 (Fin r) = (r \<le> 0)"

fun num_lt0 :: "jsnum \<Rightarrow> bool" where
  "num_lt0 NaN = False"
| "num_lt0 (Fin r) = (r < 0)"

subsection \<open>The environment of a request\<close>

text \<open>
  What the controller takes from the language runtime and from its external
  collaborators is a parameter of the model:
  \<^item> \<open>env_now\<close>: the instant read by \<^verbatim>\<open>new Date()\<close> while the request is handled
    (one instant for the whole request);
  \<^item> \<open>env_number\<close>: \<^verbatim>\<open>Number(v)\<close> on a string, an array or an object;
  \<^item> \<open>env_date\<close>: the epoch milliseconds of \<^verbatim>\<open>new Date(v)\<close>, nothing for an Invalid Date;
  \<^item> \<open>env_string\<close>: \<^verbatim>\<open>String(v)\<close> on a value that is not a string;
  \<^item> \<open>env_json_parse\<close>, \<open>env_json_stringify\<close>: \<^verbatim>\<open>JSON.parse\<close> (nothing when it throws)
    and \<^verbatim>\<open>JSON.stringify\<close>;
  \<^item> \<open>env_valid\<close>: the validation of the order schema (\<^verbatim>\<open>Models/Schema\<close>, not part of
    the sources), applied to what is written;
  \<^item> \<open>env_new_id\<close>: the storage id given to the n-th document inserted by the request;
  \<^item> \<open>env_valid_id\<close>: \<^verbatim>\<open>mongoose.Types.ObjectId.isValid\<close>;
  \<^item> \<open>env_populate\<close>: what \<^verbatim>\<open>populate("createdBy", "username email")\<close> puts in the place
    of the reference to a user.
  Casting by the schema, schema defaults and the generated \<^verbatim>\<open>orderId\<close> are not modelled.
\<close>

record env =
  env_now :: int
  env_number :: "jsval \<Rightarrow> jsnum"
  env_date :: "jsval \<Rightarrow> int option"
  env_string :: "jsval \<Rightarrow> string"
  env_json_parse :: "string \<Rightarrow> jsval option"
  env_json_stringify :: "jsval \<Rightarrow> string"
  env_valid :: "doc \<Rightarrow> bool"
  env_new_id :: "nat \<Rightarrow> string"
  env_valid_id :: "string \<Rightarrow> bool"
  env_populate :: "jsval \<Rightarrow> jsval"

text \<open>\<^verbatim>\<open>Number(v)\<close>, \<^verbatim>\<open>isNaN(v)\<close>, \<^verbatim>\<open>String(v)\<close>, \<^verbatim>\<open>new Date(v)\<close>, \<^verbatim>\<open>new Date()\<close>.\<close>

definition to_number :: "env \<Rightarrow> jsval \<Rightarrow> jsnum" where
  "to_number e v = (case v of
     JUndef \<Rightarrow> NaN
   | JNull \<Rightarrow> Fin 0
   | JBool b \<Rightarrow> Fin (if b then 1 else 0)
   | JNum n \<Rightarrow> n
   | JDate t \<Rightarrow> (case t of None \<Rightarrow> NaN | Some ms \<Rightarrow> Fin (of_int ms))
   | _ \<Rightarrow> env_number e v)"

definition isNaN :: "env \<Rightarrow> jsval \<Rightarrow> bool" where
  "isNaN e v = (to_number e v = NaN)"

definition to_string :: "env \<Rightarrow> jsval \<Rightarrow> string" where
  "to_string e v = (case v of JStr s \<Rightarrow> s | _ \<Rightarrow> env_string e v)"

definition new_Date :: "env \<Rightarrow> jsval \<Rightarrow> jsval" where
  "new_Date e v = JDate (env_date e v)"

definition date_now :: "env \<Rightarrow> jsval" where
  "date_now e = JDate (Some (env_now e))"

subsection \<open>Strings, arrays and sets of rooms\<close>

fun starts_with :: "string \<Rightarrow> string \<Rightarrow> bool" where
  "starts_with [] s = True"
| "starts_with (c # cs) [] = False"
| "starts_with (c # cs) (d # ds) = (c = d \<and> starts_with cs ds)"

text \<open>\<^verbatim>\<open>s.endsWith(suf)\<close>.\<close>

definition ends_with :: "string \<Rightarrow> string \<Rightarrow> bool" where
  "ends_with suf s = starts_with (rev suf) (rev s)"

text \<open>\<^verbatim>\<open>a || b\<close> on two strings: the empty string is falsy.\<close>

definition str_or :: "string \<Rightarrow> string \<Rightarrow> string" where
  "str_or a b = (if a \<noteq> [] then a else b)"

text \<open>\<^verbatim>\<open>v.length\<close> and the indexed elements \<^verbatim>\<open>v[i]\<close> of an array or a string.\<close>

definition js_length :: "jsval \<Rightarrow> nat option" where
  "js_length v = (case v of JArr xs \<Rightarrow> Some (length xs) | JStr s \<Rightarrow> Some (length s) | _ \<Rightarrow> None)"

definition js_elems :: "jsval \<Rightarrow> jsval list" where
  "js_elems v = (case v of JArr xs \<Rightarrow> xs | JStr s \<Rightarrow> map (\<lambda>c. JStr [c]) s | _ \<Rightarrow> [])"

text \<open>The optional read \<^verbatim>\<open>v?.k\<close>.\<close>

definition opt_prop :: "jsval \<Rightarrow> string \<Rightarrow> jsval" where
  "opt_prop v k = (if nullish v then JUndef else js_prop v k)"

text \<open>\<^verbatim>\<open>set.add(x)\<close> on a \<^verbatim>\<open>Set\<close> kept in insertion order, as \<^verbatim>\<open>[...set]\<close> lists it.\<close>

definition set_add :: "'a list \<Rightarrow> 'a \<Rightarrow> 'a list" where
  "set_add xs x = (if x \<in> set xs then xs else xs @ [x])"

section \<open>Requests, the store and what a handler produces\<close>

text \<open>
  \<^verbatim>\<open>req.user\<close> is what the token verification (\<^verbatim>\<open>utils/config jwt\<close>, external) attaches:
  a property that is missing is the empty string.
\<close>

record actor =
  actor_id :: string
  actor_role :: string
  actor_username :: string
  actor_name :: string
  actor_email :: string

text \<open>
  \<open>req_id\<close> is \<^verbatim>\<open>req.params.id\<close>, \<open>req_file\<close> the stored name of \<^verbatim>\<open>req.file\<close> when a file
  was uploaded, \<open>req_sheet\<close> the rows \<^verbatim>\<open>XLSX.utils.sheet_to_json\<close> reads from it.
\<close>

record request =
  req_user :: actor
  req_id :: string
  req_body :: doc
  req_file :: "string option"
  req_sheet :: "jsval list"

record notification =
  n_id :: string
  n_message :: string
  n_timestamp :: int
  n_isRead :: bool
  n_role :: string
  n_userId :: "string option"

record user_doc =
  u_id :: string
  u_assignedToLeader :: "string option"

text \<open>The collections: orders under their storage id, notifications, users.\<close>

record db =
  orders :: "(string \<times> doc) list"
  notifications :: "notification list"
  users :: "user_doc list"

datatype reply =
    Err string
  | Msg string
  | OrderReply doc
  | OrdersReply "doc list"
  | CountsReply nat nat nat nat
  | NotifsReply "notification list"

datatype response = Response (status: nat) (reply: reply)

text \<open>One call \<^verbatim>\<open>io.to(rooms).emit(event, data)\<close>.\<close>

record emit =
  em_rooms :: "string list"
  em_event :: string
  em_data :: jsval

text \<open>A handler's outcome: the response, the store afterwards, the calls to the socket hub.\<close>

record outcome =
  oc_response :: response
  oc_db :: db
  oc_emits :: "emit list"

definition refuse :: "db \<Rightarrow> response \<Rightarrow> outcome" where
  "refuse d r = \<lparr>oc_response = r, oc_db = d, oc_emits = []\<rparr>"

definition findById :: "db \<Rightarrow> string \<Rightarrow> doc option" where
  "findById d i = map_of (orders d) i"

text \<open>\<^verbatim>\<open>$set\<close>: the fields of the update replace those of the document.\<close>

definition apply_set :: "doc \<Rightarrow> doc \<Rightarrow> doc" where
  "apply_set d upd = d ++ upd"

section \<open>Notifications and rooms\<close>

text \<open>The rooms of the \<^verbatim>\<open>notification\<close> event in \<^verbatim>\<open>createOrder\<close> and \<^verbatim>\<open>editEntry\<close>.\<close>

definition notifRooms :: "env \<Rightarrow> doc \<Rightarrow> string list" where
  "notifRooms e ord =
    (let r0 = [];
         r1 = (if truthy (get ord ''createdBy'')
               then set_add r0 (''user:'' @ to_string e (get ord ''createdBy'')) else r0);
         r2 = (if truthy (get ord ''assignedTo'')
               then set_add r1 (''user:'' @ to_string e (get ord ''assignedTo'')) else r1)
     in set_add r2 ''admins'')"

definition notifPayload :: "env \<Rightarrow> notification \<Rightarrow> doc \<Rightarrow> jsval" where
  "notifPayload e n ord = JObj
    [(''_id'', JStr (n_id n)),
     (''message'', JStr (n_message n)),
     (''timestamp'', JDate (Some (n_timestamp n))),
     (''isRead'', JBool (n_isRead n)),
     (''userId'', (case n_userId n of None \<Rightarrow> JNull | Some u \<Rightarrow> JStr u)),
     (''orderId'', js_or (get ord ''orderId'') (JStr (to_string e (get ord ''_id''))))]"

text \<open>\<^verbatim>\<open>req.user?.username || req.user?.name || req.user?.email || req.user?.id || "Unknown User"\<close>.\<close>

definition actor_label :: "actor \<Rightarrow> string" where
  "actor_label u =
     str_or (actor_username u) (str_or (actor_name u) (str_or (actor_email u)
       (str_or (actor_id u) ''Unknown User'')))"

definition order_label :: "env \<Rightarrow> doc \<Rightarrow> string" where
  "order_label e ord =
     '' for '' @ to_string e (js_or (get ord ''customername'') (JStr ''Unknown'')) @
     '' (Order ID: '' @ to_string e (js_or (get ord ''orderId'') (JStr ''N/A'')) @ '')''"

definition new_notification :: "env \<Rightarrow> string \<Rightarrow> string \<Rightarrow> string option \<Rightarrow> notification" where
  "new_notification e nid msg uid =
     \<lparr>n_id = nid, n_message = msg, n_timestamp = env_now e, n_isRead = False,
      n_role = ''All'', n_userId = uid\<rparr>"

text \<open>\<^verbatim>\<open>req.user?.id || null\<close>.\<close>

definition actor_id_or_null :: "actor \<Rightarrow> string option" where
  "actor_id_or_null u = (if actor_id u \<noteq> [] then Some (actor_id u) else None)"

section \<open>editEntry\<close>

text \<open>The helpers \<^verbatim>\<open>deepEqual\<close> and \<^verbatim>\<open>arraysEqual\<close>; nothing is returned where the
  source throws a TypeError (\<^verbatim>\<open>every\<close> called on a value that is not an array).\<close>

definition deepEqual :: "jsval \<Rightarrow> jsval \<Rightarrow> bool option" where
  "deepEqual arr1 arr2 =
    (if \<not> truthy arr1 \<or> \<not> truthy arr2 then Some (strict_eq arr1 arr2)
     else if js_length arr1 \<noteq> js_length arr2 then Some False
     else (case arr1 of
             JArr xs \<Rightarrow> Some (list_all (\<lambda>(x, y). strict_eq x y) (zip xs (js_elems arr2)))
           | _ \<Rightarrow> None))"

definition scalars_differ :: "jsval \<Rightarrow> jsval \<Rightarrow> bool" where
  "scalars_differ a b =
     list_ex (\<lambda>k. \<not> strict_eq (js_prop a k) (opt_prop b k))
       [''productType'', ''qty'', ''unitPrice'', ''gst'', ''brand'', ''warranty'']"

text \<open>One round of the loop of \<^verbatim>\<open>arraysEqual\<close>: whether the two products differ. The
  disjunction of the source stops at its first true operand.\<close>

definition products_differ :: "jsval \<Rightarrow> jsval \<Rightarrow> bool option" where
  "products_differ a b =
    (if scalars_differ a b then Some True
     else (case deepEqual (js_prop a ''serialNos'') (opt_prop b ''serialNos'') of
        None \<Rightarrow> None
      | Some False \<Rightarrow> Some True
      | Some True \<Rightarrow>
         (case deepEqual (js_prop a ''modelNos'') (opt_prop b ''modelNos'') of
            None \<Rightarrow> None
          | Some False \<Rightarrow> Some True
          | Some True \<Rightarrow>
             (case deepEqual (js_prop a ''productCode'') (opt_prop b ''productCode'') of
                None \<Rightarrow> None
              | Some False \<Rightarrow> Some True
              | Some True \<Rightarrow> Some False))))"

fun arraysEqual_loop :: "(jsval \<times> jsval) list \<Rightarrow> bool option" where
  "arraysEqual_loop [] = Some True"
| "arraysEqual_loop ((a, b) # rest) =
    (case products_differ a b of
       None \<Rightarrow> None
     | Some True \<Rightarrow> Some False
     | Some False \<Rightarrow> arraysEqual_loop rest)"

definition arraysEqual :: "jsval list \<Rightarrow> jsval \<Rightarrow> bool option" where
  "arraysEqual arr1 arr2 =
    (if Some (length arr1) \<noteq> js_length arr2 then Some False
     else arraysEqual_loop (zip arr1 (js_elems arr2)))"

definition allowedFields :: "string list" where
  "allowedFields =
    [''soDate'', ''dispatchFrom'', ''dispatchDate'', ''name'', ''city'', ''state'',
     ''pinCode'', ''contactNo'', ''alterno'', ''customerEmail'', ''customername'',
     ''products'', ''productno'', ''total'', ''gstno'', ''freightstatus'',
     ''installchargesstatus'', ''paymentCollected'', ''paymentMethod'', ''paymentDue'',
     ''neftTransactionId'', ''chequeId'', ''freightcs'', ''orderType'', ''installation'',
     ''installationeng'', ''installationStatus'', ''remarksByInstallation'',
     ''dispatchStatus'', ''salesPerson'', ''report'', ''company'', ''transporter'',
     ''transporterDetails'', ''docketNo'', ''receiptDate'', ''shippingAddress'',
     ''billingAddress'', ''sameAddress'', ''invoiceNo'', ''invoiceDate'',
     ''fulfillingStatus'', ''remarksByProduction'', ''remarksByAccounts'',
     ''paymentReceived'', ''billNumber'', ''piNumber'', ''remarksByBilling'',
     ''verificationRemarks'', ''billStatus'', ''completionStatus'', ''fulfillmentDate'',
     ''remarks'', ''sostatus'', ''gemOrderNumber'', ''deliveryDate'', ''deliveredDate'',
     ''stamp'', ''installationReport'', ''installationStatusDate'', ''demoDate'',
     ''paymentTerms'', ''creditDays'', ''actualFreight'', ''installationFile'',
     ''stockStatus'']"

definition is_date_field :: "string \<Rightarrow> bool" where
  "is_date_field field =
     (ends_with ''Date'' field \<or> field = ''receiptDate'' \<or> field = ''soDate'')"

definition server_error :: response where
  "server_error = Response 500 (Err ''Server error'')"

text \<open>The products of an edit: normalised, then validated.\<close>

definition normalize_product :: "env \<Rightarrow> jsval \<Rightarrow> jsval" where
  "normalize_product e p =
     with_prop (with_prop (with_prop (with_prop p
       ''qty'' (JNum (to_number e (js_prop p ''qty''))))
       ''unitPrice'' (JNum (to_number e (js_prop p ''unitPrice''))))
       ''gst'' (js_or (js_prop p ''gst'') (JStr ''18'')))
       ''warranty'' (js_or (js_prop p ''warranty'') (JStr ''1 Year''))"

definition edit_product_invalid :: "env \<Rightarrow> jsval \<Rightarrow> bool" where
  "edit_product_invalid e p =
     (\<not> truthy (js_prop p ''productType'') \<or>
      \<not> truthy (js_prop p ''qty'') \<or>
      num_lt0 (to_number e (js_prop p ''unitPrice'')) \<or>
      \<not> truthy (js_prop p ''gst'') \<or>
      \<not> truthy (js_prop p ''warranty''))"

text \<open>
  The state of the loop over \<^verbatim>\<open>allowedFields\<close>: \<^verbatim>\<open>updateFields\<close> and
  \<^verbatim>\<open>productsWereEdited\<close>. One round either answers the request (a 400, or the 500 of
  the handler's \<^verbatim>\<open>catch\<close> after a TypeError) or goes on with the next field.
\<close>

definition collect_products ::
  "env \<Rightarrow> doc \<Rightarrow> jsval \<Rightarrow> doc \<times> bool \<Rightarrow> response + doc \<times> bool" where
  "collect_products e existingOrder val st =
    (case val of
       JArr ps \<Rightarrow>
         (if list_ex nullish ps then Inl server_error
          else let normalizedProducts = map (normalize_product e) ps in
            if list_ex (edit_product_invalid e) normalizedProducts
            then Inl (Response 400 (Err ''Invalid product data''))
            else (case arraysEqual normalizedProducts
                         (js_or (get existingOrder ''products'') (JArr [])) of
                    None \<Rightarrow> Inl server_error
                  | Some True \<Rightarrow> Inr st
                  | Some False \<Rightarrow> Inr ((fst st)(''products'' \<mapsto> JArr normalizedProducts), True)))
     | _ \<Rightarrow> Inl (Response 400 (Err ''Products must be an array'')))"

text \<open>The two guards of one round: \<^verbatim>\<open>field === "installationFile" && req.file\<close> and, for a
  date field, \<^verbatim>\<open>val && !isNaN(new Date(val))\<close>.\<close>

definition upload_field :: "request \<Rightarrow> string \<Rightarrow> bool" where
  "upload_field req field = (field = ''installationFile'' \<and> req_file req \<noteq> None)"

definition valid_date :: "env \<Rightarrow> jsval \<Rightarrow> bool" where
  "valid_date e val = (truthy val \<and> env_date e val \<noteq> None)"

definition collect_field ::
  "env \<Rightarrow> request \<Rightarrow> doc \<Rightarrow> string \<Rightarrow> doc \<times> bool \<Rightarrow> response + doc \<times> bool" where
  "collect_field e req existingOrder field st =
    (if upload_field req field
     then Inr ((fst st)(field \<mapsto> JStr (''/Uploads/'' @ the (req_file req))), snd st)
     else if has (req_body req) field then
       (let val = get (req_body req) field in
        if nullish val then Inr st
        else if field = ''products'' then collect_products e existingOrder val st
        else if is_date_field field then
          (if valid_date e val
           then Inr ((fst st)(field \<mapsto> new_Date e val), snd st)
           else Inr st)
        else Inr ((fst st)(field \<mapsto> val), snd st))
     else Inr st)"

fun collect_fields ::
  "env \<Rightarrow> request \<Rightarrow> doc \<Rightarrow> string list \<Rightarrow> doc \<times> bool \<Rightarrow> response + doc \<times> bool" where
  "collect_fields e req existingOrder [] st = Inr st"
| "collect_fields e req existingOrder (field # rest) st =
    (case collect_field e req existingOrder field st of
       Inl r \<Rightarrow> Inl r
     | Inr st' \<Rightarrow> collect_fields e req existingOrder rest st')"

text \<open>The transition rules, in the order of the source; each maps \<^verbatim>\<open>updateFields\<close>.\<close>

definition approval_rule :: "env \<Rightarrow> doc \<Rightarrow> doc \<Rightarrow> doc" where
  "approval_rule e existingOrder uf =
    (if get uf ''sostatus'' = JStr ''Approved'' \<and> get existingOrder ''sostatus'' \<noteq> JStr ''Approved''
     then uf(''approvalTimestamp'' \<mapsto> date_now e) else uf)"

definition products_edit_rule :: "env \<Rightarrow> bool \<Rightarrow> doc \<Rightarrow> doc" where
  "products_edit_rule e productsWereEdited uf =
    (if productsWereEdited then uf(''productsEditTimestamp'' \<mapsto> date_now e) else uf)"

text \<open>The guard \<^verbatim>\<open>updateFields.dispatchFrom && updateFields.dispatchFrom !== existingOrder.dispatchFrom\<close>.\<close>

definition dispatchFrom_changing :: "doc \<Rightarrow> doc \<Rightarrow> bool" where
  "dispatchFrom_changing existingOrder uf =
     (truthy (get uf ''dispatchFrom'') \<and>
      \<not> strict_eq (get uf ''dispatchFrom'') (get existingOrder ''dispatchFrom''))"

definition morinda_rule :: "env \<Rightarrow> request \<Rightarrow> doc \<Rightarrow> doc \<Rightarrow> doc" where
  "morinda_rule e req existingOrder uf =
    (if dispatchFrom_changing existingOrder uf
     then
       (if get uf ''dispatchFrom'' = JStr ''Morinda''
        then uf(''fulfillingStatus'' \<mapsto> JStr ''Pending'',
                ''completionStatus'' \<mapsto> JStr ''In Progress'')
        else uf(''fulfillingStatus'' \<mapsto> JStr ''Fulfilled'',
                ''completionStatus'' \<mapsto> JStr ''Complete'',
                ''fulfillmentDate'' \<mapsto> date_now e))
     else if has (req_body req) ''fulfillingStatus'' then
       (if get uf ''fulfillingStatus'' = JStr ''Fulfilled''
        then (if \<not> truthy (get existingOrder ''fulfillmentDate'')
              then uf(''completionStatus'' \<mapsto> JStr ''Complete'',
                      ''fulfillmentDate'' \<mapsto> date_now e)
              else uf(''completionStatus'' \<mapsto> JStr ''Complete''))
        else uf)
     else uf)"

definition dispatch_date_rule :: "env \<Rightarrow> request \<Rightarrow> doc \<Rightarrow> doc \<Rightarrow> doc" where
  "dispatch_date_rule e req existingOrder uf =
    (if has (req_body req) ''dispatchStatus'' \<and>
        (get uf ''dispatchStatus'' = JStr ''Dispatched'' \<or>
         get uf ''dispatchStatus'' = JStr ''Delivered'') \<and>
        \<not> has (req_body req) ''dispatchDate'' \<and>
        \<not> truthy (get existingOrder ''dispatchDate'')
     then uf(''dispatchDate'' \<mapsto> date_now e) else uf)"

definition receipt_date_rule :: "env \<Rightarrow> doc \<Rightarrow> doc \<Rightarrow> doc" where
  "receipt_date_rule e existingOrder uf =
    (if get uf ''dispatchStatus'' = JStr ''Delivered'' \<and>
        \<not> truthy (get existingOrder ''receiptDate'')
     then uf(''receiptDate'' \<mapsto> date_now e) else uf)"

definition transition_rules :: "env \<Rightarrow> request \<Rightarrow> doc \<Rightarrow> doc \<times> bool \<Rightarrow> doc" where
  "transition_rules e req existingOrder st =
     receipt_date_rule e existingOrder
       (dispatch_date_rule e req existingOrder
         (morinda_rule e req existingOrder
           (products_edit_rule e (snd st)
             (approval_rule e existingOrder (fst st)))))"

text \<open>The document \<^verbatim>\<open>findByIdAndUpdate(...).populate("createdBy", "username email")\<close>
  hands back: the stored one with its \<^verbatim>\<open>createdBy\<close> populated.\<close>

definition populate_createdBy :: "env \<Rightarrow> doc \<Rightarrow> doc" where
  "populate_createdBy e ord =
    (if nullish (get ord ''createdBy'') then ord
     else ord(''createdBy'' \<mapsto> env_populate e (get ord ''createdBy'')))"

text \<open>
  The handler. The e-mails it sends after the update are best effort (each in its own
  \<^verbatim>\<open>try\<close>) and touch neither the store nor the response: they are left out. A validation
  failure of \<^verbatim>\<open>findByIdAndUpdate\<close> is thrown and answered by the \<^verbatim>\<open>catch\<close> with a 500; an
  id that the store cannot cast is not modelled.
\<close>

definition editEntry :: "env \<Rightarrow> request \<Rightarrow> db \<Rightarrow> outcome" where
  "editEntry e req d =
    (case findById d (req_id req) of
       None \<Rightarrow> refuse d (Response 404 (Err ''Order not found''))
     | Some existingOrder \<Rightarrow>
        (case collect_fields e req existingOrder allowedFields (Map.empty, False) of
           Inl r \<Rightarrow> refuse d r
         | Inr st \<Rightarrow>
            (let updateFields = transition_rules e req existingOrder st in
             if \<not> env_valid e updateFields then refuse d server_error
             else
               let stored = apply_set existingOrder updateFields;
                   updatedOrder = populate_createdBy e stored;
                   n = new_notification e (env_new_id e 0)
                         (''Order updated by '' @ actor_label (req_user req) @
                          order_label e updatedOrder)
                         (actor_id_or_null (req_user req))
               in \<lparr>oc_response = Response 200 (OrderReply updatedOrder),
                   oc_db = d\<lparr>orders := AList.update (req_id req) stored (orders d),
                             notifications := notifications d @ [n]\<rparr>,
                   oc_emits = [\<lparr>em_rooms = notifRooms e updatedOrder,
                                em_event = ''notification'',
                                em_data = notifPayload e n updatedOrder\<rparr>]\<rparr>)))"

section \<open>createOrder\<close>

definition validDispatchLocations :: "string list" where
  "validDispatchLocations =
     [''Patna'', ''Bareilly'', ''Ranchi'', ''Morinda'', ''Lucknow'', ''Delhi'', ''Jaipur'',
      ''Rajasthan'']"

text \<open>\<^verbatim>\<open>dispatchFrom && !validDispatchLocations.includes(dispatchFrom)\<close>.\<close>

definition invalid_dispatchFrom :: "jsval \<Rightarrow> bool" where
  "invalid_dispatchFrom v = (truthy v \<and> v \<notin> set (map JStr validDispatchLocations))"

text \<open>\<^verbatim>\<open>s.split(",").map((m) => m.trim())\<close>; the white space trimmed is that of ASCII.\<close>

fun split_on :: "char \<Rightarrow> string \<Rightarrow> string list" where
  "split_on c [] = [[]]"
| "split_on c (x # xs) =
    (if x = c then [] # split_on c xs
     else (case split_on c xs of [] \<Rightarrow> [[x]] | w # ws \<Rightarrow> (x # w) # ws))"

definition is_space :: "char \<Rightarrow> bool" where
  "is_space c = (c \<in> set [CHR '' '', CHR 0x09, CHR 0x0A, CHR 0x0B, CHR 0x0C, CHR 0x0D])"

definition trim :: "string \<Rightarrow> string" where
  "trim s = rev (dropWhile is_space (rev (dropWhile is_space s)))"

definition split_trim :: "string \<Rightarrow> jsval" where
  "split_trim s = JArr (map (\<lambda>m. JStr (trim m)) (split_on CHR '','' s))"

text \<open>The default warranty of a product, shared by \<^verbatim>\<open>createOrder\<close> and the bulk upload.\<close>

definition default_warranty :: "jsval \<Rightarrow> jsval \<Rightarrow> jsval \<Rightarrow> jsval" where
  "default_warranty orderType productType brand =
    (if orderType = JStr ''B2G'' then JStr ''As Per Tender''
     else if productType = JStr ''IFPD'' \<and> brand = JStr ''Promark'' then JStr ''3 Years''
     else JStr ''1 Year'')"

text \<open>The three checks of one product in the loop of \<^verbatim>\<open>createOrder\<close>.\<close>

definition missing_product_field :: "jsval \<Rightarrow> bool" where
  "missing_product_field product =
     (\<not> truthy (js_prop product ''productType'') \<or>
      \<not> truthy (js_prop product ''qty'') \<or>
      \<not> truthy (js_prop product ''gst'') \<or>
      \<not> truthy (js_prop product ''warranty''))"

definition bad_product_numbers :: "env \<Rightarrow> jsval \<Rightarrow> bool" where
  "bad_product_numbers e product =
     (isNaN e (js_prop product ''qty'') \<or>
      num_le0 (to_number e (js_prop product ''qty'')) \<or>
      isNaN e (js_prop product ''unitPrice'') \<or>
      num_lt0 (to_number e (js_prop product ''unitPrice'')) \<or>
      (js_prop product ''gst'' \<noteq> JStr ''including'' \<and> isNaN e (js_prop product ''gst'')))"

definition ifpd_incomplete :: "jsval \<Rightarrow> bool" where
  "ifpd_incomplete product =
     (js_prop product ''productType'' = JStr ''IFPD'' \<and>
      (\<not> truthy (js_prop product ''modelNos'') \<or> \<not> truthy (js_prop product ''brand'')))"

definition invalid_product_data :: response where
  "invalid_product_data = Response 400 (Err ''Invalid product data'')"

text \<open>The normalisation at the end of one round; \<^verbatim>\<open>split\<close> on a truthy \<^verbatim>\<open>modelNos\<close> that is
  neither an array nor a string is a TypeError.\<close>

definition normalize_modelNos :: "jsval \<Rightarrow> jsval option" where
  "normalize_modelNos m =
    (case m of
       JArr xs \<Rightarrow> Some (JArr xs)
     | JStr s \<Rightarrow> Some (if truthy m then split_trim s else JArr [])
     | _ \<Rightarrow> (if truthy m then None else Some (JArr [])))"

definition create_product :: "env \<Rightarrow> jsval \<Rightarrow> jsval \<Rightarrow> response + jsval" where
  "create_product e orderType product =
    (if nullish product then Inl server_error
     else if missing_product_field product then Inl invalid_product_data
     else if bad_product_numbers e product then Inl invalid_product_data
     else if ifpd_incomplete product
       then Inl (Response 400 (Err ''Model Numbers and Brand are required for IFPD products''))
     else (case normalize_modelNos (js_prop product ''modelNos'') of
        None \<Rightarrow> Inl server_error
      | Some modelNos \<Rightarrow>
          Inr (with_prop (with_prop (with_prop (with_prop product
            ''warranty'' (js_or (js_prop product ''warranty'')
               (default_warranty orderType (js_prop product ''productType'')
                  (js_prop product ''brand''))))
            ''serialNos'' (case js_prop product ''serialNos'' of JArr xs \<Rightarrow> JArr xs | _ \<Rightarrow> JArr []))
            ''modelNos'' modelNos)
            ''brand'' (js_or (js_prop product ''brand'') (JStr [])))))"

fun create_products :: "env \<Rightarrow> jsval \<Rightarrow> jsval list \<Rightarrow> response + jsval list" where
  "create_products e orderType [] = Inr []"
| "create_products e orderType (product # rest) =
    (case create_product e orderType product of
       Inl r \<Rightarrow> Inl r
     | Inr p \<Rightarrow> (case create_products e orderType rest of
                  Inl r \<Rightarrow> Inl r
                | Inr ps \<Rightarrow> Inr (p # ps)))"

text \<open>The callback of \<^verbatim>\<open>reduce\<close> and the two derived amounts.\<close>

definition gstRate :: "env \<Rightarrow> jsval \<Rightarrow> jsnum" where
  "gstRate e product =
    (if js_prop product ''gst'' = JStr ''including'' then Fin 0
     else num_or0 (to_number e (js_prop product ''gst'')))"

definition add_line :: "env \<Rightarrow> jsnum \<Rightarrow> jsval \<Rightarrow> jsnum" where
  "add_line e acc product =
    (let qty = num_or0 (to_number e (js_prop product ''qty''));
         unitPrice = num_or0 (to_number e (js_prop product ''unitPrice''))
     in num_add acc (num_mul (num_mul qty unitPrice) (num_add (Fin 1) (num_div100 (gstRate e product)))))"

definition calculatedTotal :: "env \<Rightarrow> jsval list \<Rightarrow> jsval \<Rightarrow> jsval \<Rightarrow> jsnum" where
  "calculatedTotal e products freightcs installation =
     num_add (num_add (foldl (add_line e) (Fin 0) products)
                (to_number e (js_or freightcs (JNum (Fin 0)))))
       (to_number e (js_or installation (JNum (Fin 0))))"

definition calculatedPaymentDue :: "env \<Rightarrow> jsnum \<Rightarrow> jsval \<Rightarrow> jsnum" where
  "calculatedPaymentDue e tot paymentCollected =
     num_sub tot (to_number e (js_or paymentCollected (JNum (Fin 0))))"

text \<open>The test \<^verbatim>\<open>v !== undefined && !isNaN(v)\<close> that lets a supplied \<^verbatim>\<open>total\<close> or
  \<^verbatim>\<open>paymentDue\<close> override the derived one.\<close>

definition explicit_numeric :: "env \<Rightarrow> jsval \<Rightarrow> bool" where
  "explicit_numeric e v = (v \<noteq> JUndef \<and> \<not> isNaN e v)"

text \<open>What a \<^verbatim>\<open>for...of\<close> iterates: the elements of an array, the characters of a string;
  any other value of the payload is not iterable.\<close>

definition iterate :: "jsval \<Rightarrow> jsval list option" where
  "iterate v = (case v of JArr xs \<Rightarrow> Some xs | JStr s \<Rightarrow> Some (js_elems v) | _ \<Rightarrow> None)"

definition is_array :: "jsval \<Rightarrow> bool" where
  "is_array v = (case v of JArr xs \<Rightarrow> True | _ \<Rightarrow> False)"

text \<open>The document handed to \<^verbatim>\<open>new Order\<close>; \<^verbatim>\<open>submissionTime\<close> is the instant formatted by
  the runtime for the locale.\<close>

definition new_order :: "env \<Rightarrow> request \<Rightarrow> jsval list \<Rightarrow> doc" where
  "new_order e req parsedProducts =
    (let b = req_body req;
         tot = calculatedTotal e parsedProducts (get b ''freightcs'') (get b ''installation'');
         due = calculatedPaymentDue e tot (get b ''paymentCollected'');
         calculatedFulfillingStatus =
           (if get b ''orderType'' = JStr ''Demo'' \<or> get b ''dispatchFrom'' \<noteq> JStr ''Morinda''
            then JStr ''Fulfilled'' else JStr ''Not Fulfilled'')
     in map_of
      [(''_id'', JStr (env_new_id e 0)),
       (''soDate'', date_now e),
       (''name'', get b ''name''),
       (''city'', get b ''city''),
       (''state'', get b ''state''),
       (''pinCode'', get b ''pinCode''),
       (''contactNo'', get b ''contactNo''),
       (''alterno'', get b ''alterno''),
       (''customerEmail'', get b ''customerEmail''),
       (''customername'', get b ''customername''),
       (''products'', JArr parsedProducts),
       (''gstno'', get b ''gstno''),
       (''freightcs'', get b ''freightcs''),
       (''freightstatus'', js_or (get b ''freightstatus'') (JStr ''Extra'')),
       (''installchargesstatus'', js_or (get b ''installchargesstatus'') (JStr ''Extra'')),
       (''installation'', get b ''installation''),
       (''report'', get b ''report''),
       (''salesPerson'', get b ''salesPerson''),
       (''company'', get b ''company''),
       (''orderType'', js_or (get b ''orderType'') (JStr ''B2C'')),
       (''shippingAddress'', get b ''shippingAddress''),
       (''billingAddress'', get b ''billingAddress''),
       (''sameAddress'', get b ''sameAddress''),
       (''total'', if explicit_numeric e (get b ''total'')
                   then JNum (to_number e (get b ''total'')) else JNum tot),
       (''paymentCollected'', JStr (to_string e (js_or (get b ''paymentCollected'') (JStr [])))),
       (''paymentMethod'', js_or (get b ''paymentMethod'') (JStr [])),
       (''paymentDue'', if explicit_numeric e (get b ''paymentDue'')
                        then JStr (to_string e (get b ''paymentDue''))
                        else JStr (to_string e (JNum due))),
       (''neftTransactionId'', js_or (get b ''neftTransactionId'') (JStr [])),
       (''chequeId'', js_or (get b ''chequeId'') (JStr [])),
       (''remarks'', get b ''remarks''),
       (''gemOrderNumber'', js_or (get b ''gemOrderNumber'') (JStr [])),
       (''deliveryDate'', if truthy (get b ''deliveryDate'')
                          then new_Date e (get b ''deliveryDate'') else JNull),
       (''paymentTerms'', js_or (get b ''paymentTerms'') (JStr [])),
       (''demoDate'', if truthy (get b ''demoDate'') then new_Date e (get b ''demoDate'') else JNull),
       (''creditDays'', js_or (get b ''creditDays'') (JStr [])),
       (''createdBy'', JStr (actor_id (req_user req))),
       (''dispatchFrom'', get b ''dispatchFrom''),
       (''fulfillingStatus'', js_or (get b ''fulfillingStatus'') calculatedFulfillingStatus),
       (''poFilePath'', case req_file req of None \<Rightarrow> JNull | Some f \<Rightarrow> JStr (''/Uploads/'' @ f)),
       (''submissionTime'', JStr (env_string e (date_now e)))])"

text \<open>The steps of the handler before anything is written: each either answers the request
  or hands over the normalised products.\<close>

definition parse_products :: "env \<Rightarrow> jsval \<Rightarrow> response + jsval" where
  "parse_products e products =
    (case products of
       JStr s \<Rightarrow> (case env_json_parse e s of
                    None \<Rightarrow> Inl (Response 400 (Err ''Invalid products format''))
                  | Some v \<Rightarrow> Inr v)
     | _ \<Rightarrow> Inr products)"

definition order_type_check :: "doc \<Rightarrow> response option" where
  "order_type_check b =
    (if get b ''orderType'' = JStr ''B2G'' \<and> \<not> truthy (get b ''gemOrderNumber'')
     then Some (Response 400 (Err ''Missing GEM Order Number''))
     else if get b ''orderType'' = JStr ''Demo'' \<and> \<not> truthy (get b ''demoDate'')
     then Some (Response 400 (Err ''Missing Demo Date''))
     else if \<not> truthy (get b ''paymentTerms'') \<and> get b ''orderType'' \<noteq> JStr ''Demo''
     then Some (Response 400 (Err ''Payment Terms is required for non-Demo orders''))
     else None)"

definition checked_products :: "env \<Rightarrow> request \<Rightarrow> response + jsval list" where
  "checked_products e req =
    (case parse_products e (get (req_body req) ''products'') of
       Inl r \<Rightarrow> Inl r
     | Inr parsedProducts \<Rightarrow>
        (case order_type_check (req_body req) of
           Some r \<Rightarrow> Inl r
         | None \<Rightarrow>
            if invalid_dispatchFrom (get (req_body req) ''dispatchFrom'')
            then Inl (Response 400 (Err ''Invalid dispatchFrom value''))
            else (case iterate parsedProducts of
               None \<Rightarrow> Inl server_error
             | Some items \<Rightarrow>
                (case create_products e (get (req_body req) ''orderType'') items of
                   Inl r \<Rightarrow> Inl r
                 | Inr ps \<Rightarrow> if is_array parsedProducts then Inr ps else Inl server_error))))"

definition createOrder :: "env \<Rightarrow> request \<Rightarrow> db \<Rightarrow> outcome" where
  "createOrder e req d =
    (case checked_products e req of
       Inl r \<Rightarrow> refuse d r
     | Inr parsedProducts \<Rightarrow>
        (let order = new_order e req parsedProducts in
         if \<not> env_valid e order then refuse d (Response 400 (Err ''Validation failed''))
         else
           let n = new_notification e (env_new_id e 1)
                     (''New sales order created by '' @ str_or (actor_username (req_user req)) ''User'' @
                      order_label e order)
                     (Some (actor_id (req_user req)))
           in \<lparr>oc_response = Response 201 (OrderReply order),
               oc_db = d\<lparr>orders := orders d @ [(env_new_id e 0, order)],
                         notifications := notifications d @ [n]\<rparr>,
               oc_emits = [\<lparr>em_rooms = notifRooms e order,
                            em_event = ''notification'',
                            em_data = notifPayload e n order\<rparr>]\<rparr>))"

section \<open>DeleteData\<close>

text \<open>The rooms of the \<^verbatim>\<open>deleteOrder\<close> event, and those of the \<^verbatim>\<open>notification\<close> event, a copy
  of the former with the room of the administrators added.\<close>

definition targetRooms :: "env \<Rightarrow> doc \<Rightarrow> string list" where
  "targetRooms e ord =
    (let r1 = set_add [] (''user:'' @ to_string e (get ord ''createdBy''))
     in if truthy (get ord ''assignedTo'')
        then set_add r1 (''user:'' @ to_string e (get ord ''assignedTo'')) else r1)"


definition order_payload :: "env \<Rightarrow> doc \<Rightarrow> jsval" where
  "order_payload e ord = JObj
    [(''_id'', get ord ''_id''),
     (''customername'', get ord ''customername''),
     (''orderId'', get ord ''orderId''),
     (''createdBy'', JStr (to_string e (get ord ''createdBy''))),
     (''assignedTo'', if truthy (get ord ''assignedTo'')
                      then JStr (to_string e (get ord ''assignedTo'')) else JNull)]"



section \<open>bulkUploadOrders\<close>

text \<open>The single product built from one row of the sheet.\<close>

definition row_product :: "env \<Rightarrow> jsval \<Rightarrow> jsval" where
  "row_product e row = JObj
    [(''productType'', js_or (js_prop row ''Product Type'') (JStr [])),
     (''size'', js_or (js_prop row ''Size'') (JStr ''N/A'')),
     (''spec'', js_or (js_prop row ''Specification'') (JStr ''N/A'')),
     (''qty'', JNum (num_or0 (to_number e (js_prop row ''Quantity'')))),
     (''unitPrice'', JNum (num_or0 (to_number e (js_prop row ''Unit Price'')))),
     (''gst'', js_or (js_prop row ''GST'') (JStr ''18'')),
     (''modelNos'', if truthy (js_prop row ''Model Nos'')
                    then split_trim (to_string e (js_prop row ''Model Nos'')) else JArr []),
     (''brand'', js_or (js_prop row ''Brand'') (JStr [])),
     (''warranty'', js_or (js_prop row ''Warranty'')
        (default_warranty (js_prop row ''Order Type'') (js_prop row ''Product Type'')
           (js_prop row ''Brand'')))]"

text \<open>The checks of the upload on that product.\<close>

definition bulk_missing_field :: "jsval \<Rightarrow> bool" where
  "bulk_missing_field product =
     (\<not> truthy (js_prop product ''productType'') \<or>
      \<not> truthy (js_prop product ''qty'') \<or>
      \<not> truthy (js_prop product ''unitPrice'') \<or>
      \<not> truthy (js_prop product ''gst'') \<or>
      \<not> truthy (js_prop product ''warranty''))"

definition bulk_bad_numbers :: "env \<Rightarrow> jsval \<Rightarrow> bool" where
  "bulk_bad_numbers e product =
     (isNaN e (js_prop product ''qty'') \<or>
      num_le0 (to_number e (js_prop product ''qty'')) \<or>
      isNaN e (js_prop product ''unitPrice'') \<or>
      (js_prop product ''gst'' \<noteq> JStr ''including'' \<and> isNaN e (js_prop product ''gst'')))"

definition row_error :: "env \<Rightarrow> string \<Rightarrow> jsval \<Rightarrow> response" where
  "row_error e msg row = Response 400 (Err (msg @ env_json_stringify e row))"

definition row_check :: "env \<Rightarrow> jsval \<Rightarrow> response option" where
  "row_check e row =
    (let product = row_product e row in
     if bulk_missing_field product then Some (row_error e ''Invalid product data in row: '' row)
     else if bulk_bad_numbers e product then Some (row_error e ''Invalid product data in row: '' row)
     else if ifpd_incomplete product
       then Some (row_error e ''Model Numbers and Brand are required for IFPD products in row: '' row)
     else if invalid_dispatchFrom (js_prop row ''Dispatch From'')
       then Some (row_error e ''Invalid dispatchFrom value in row: '' row)
     else None)"

definition row_order :: "env \<Rightarrow> request \<Rightarrow> jsval \<Rightarrow> doc" where
  "row_order e req row =
    (let products = [row_product e row];
         tot = calculatedTotal e products (js_prop row ''Freight Charges'')
                 (js_prop row ''Installation Charges'');
         due = calculatedPaymentDue e tot (js_prop row ''Payment Collected'')
     in map_of
      [(''soDate'', if truthy (js_prop row ''SO Date'')
                    then new_Date e (js_prop row ''SO Date'') else date_now e),
       (''dispatchFrom'', js_or (js_prop row ''Dispatch From'') (JStr [])),
       (''name'', js_or (js_prop row ''Contact Person Name'') (JStr [])),
       (''city'', js_or (js_prop row ''City'') (JStr [])),
       (''state'', js_or (js_prop row ''State'') (JStr [])),
       (''pinCode'', js_or (js_prop row ''Pin Code'') (JStr [])),
       (''contactNo'', js_or (js_prop row ''Contact No'') (JStr [])),
       (''alterno'', js_or (js_prop row ''Alternate No'') (JStr [])),
       (''customerEmail'', js_or (js_prop row ''Customer Email'') (JStr [])),
       (''customername'', js_or (js_prop row ''Customer Name'') (JStr [])),
       (''products'', JArr products),
       (''total'', JNum tot),
       (''gstno'', js_or (js_prop row ''GST No'') (JStr [])),
       (''freightcs'', js_or (js_prop row ''Freight Charges'') (JStr [])),
       (''freightstatus'', js_or (js_prop row ''Freight Status'') (JStr ''Extra'')),
       (''installchargesstatus'',
          js_or (js_prop row ''Installation Charges Status'') (JStr ''Extra'')),
       (''installation'', js_or (js_prop row ''Installation Charges'') (JStr [])),
       (''report'', js_or (js_prop row ''Reporting Manager'') (JStr [])),
       (''salesPerson'', js_or (js_prop row ''Sales Person'') (JStr [])),
       (''company'', js_or (js_prop row ''Company'') (JStr ''Promark'')),
       (''orderType'', js_or (js_prop row ''Order Type'') (JStr ''B2C'')),
       (''shippingAddress'', js_or (js_prop row ''Shipping Address'') (JStr [])),
       (''billingAddress'', js_or (js_prop row ''Billing Address'') (JStr [])),
       (''sameAddress'', JBool (js_prop row ''Same Address'' = JStr ''Yes'')),
       (''paymentCollected'', JStr (to_string e (js_or (js_prop row ''Payment Collected'') (JStr [])))),
       (''paymentMethod'', js_or (js_prop row ''Payment Method'') (JStr [])),
       (''paymentDue'', JStr (to_string e (JNum due))),
       (''neftTransactionId'', js_or (js_prop row ''NEFT Transaction ID'') (JStr [])),
       (''chequeId'', js_or (js_prop row ''Cheque ID'') (JStr [])),
       (''remarks'', js_or (js_prop row ''Remarks'') (JStr [])),
       (''gemOrderNumber'', js_or (js_prop row ''GEM Order Number'') (JStr [])),
       (''deliveryDate'', if truthy (js_prop row ''Delivery Date'')
                          then new_Date e (js_prop row ''Delivery Date'') else JNull),
       (''paymentTerms'', js_or (js_prop row ''Payment Terms'') (JStr [])),
       (''creditDays'', js_or (js_prop row ''Credit Days'') (JStr [])),
       (''createdBy'', JStr (actor_id (req_user req)))])"

text \<open>The loop over the rows: the first row that fails a check answers the request.\<close>

fun bulk_rows :: "env \<Rightarrow> request \<Rightarrow> jsval list \<Rightarrow> response + doc list" where
  "bulk_rows e req [] = Inr []"
| "bulk_rows e req (row # rest) =
    (case row_check e row of
       Some r \<Rightarrow> Inl r
     | None \<Rightarrow> (case bulk_rows e req rest of
                  Inl r \<Rightarrow> Inl r
                | Inr os \<Rightarrow> Inr (row_order e req row # os)))"

text \<open>\<^verbatim>\<open>insertMany\<close> validates every document before it writes any, and gives each its id.\<close>

definition with_ids :: "env \<Rightarrow> doc list \<Rightarrow> (string \<times> doc) list" where
  "with_ids e os =
     map (\<lambda>(i, ord). (env_new_id e i, ord(''_id'' \<mapsto> JStr (env_new_id e i)))) (enumerate 0 os)"

definition newOrder_emits :: "env \<Rightarrow> doc \<Rightarrow> emit list" where
  "newOrder_emits e ord =
     map (\<lambda>room. \<lparr>em_rooms = [room], em_event = ''newOrder'', em_data = order_payload e ord\<rparr>)
       (targetRooms e ord)"

definition bulkUploadOrders :: "env \<Rightarrow> request \<Rightarrow> db \<Rightarrow> outcome" where
  "bulkUploadOrders e req d =
    (if req_file req = None then refuse d (Response 400 (Err ''No file uploaded''))
     else (case bulk_rows e req (req_sheet req) of
        Inl r \<Rightarrow> refuse d r
      | Inr os \<Rightarrow>
         if \<not> list_all (env_valid e) os then refuse d (Response 400 (Err ''Validation failed''))
         else
           let savedOrders = with_ids e os
           in \<lparr>oc_response = Response 201 (OrdersReply (map snd savedOrders)),
               oc_db = d\<lparr>orders := orders d @ savedOrders\<rparr>,
               oc_emits = concat (map (newOrder_emits e) (map snd savedOrders))\<rparr>))"

section \<open>Queries on the order collection\<close>

text \<open>
  The filters the controller hands to \<^verbatim>\<open>Order.find\<close> and \<^verbatim>\<open>Order.countDocuments\<close>: an
  object literal is the list of its entries in source order, and where a key occurs twice
  (a spread \<^verbatim>\<open>...baseQuery\<close> followed by the same key) the last entry is the one the
  object holds. A field that a document lacks reads as \<^verbatim>\<open>undefined\<close>.
\<close>

datatype cond = QEq jsval | QNe jsval | QIn "jsval list" | QNin "jsval list"

datatype qval = Field cond | OrQ "(string \<times> cond) list list"

type_synonym query = "(string \<times> qval) list"

fun cond_holds :: "cond \<Rightarrow> jsval \<Rightarrow> bool" where
  "cond_holds (QEq x) v = (v = x)"
| "cond_holds (QNe x) v = (v \<noteq> x)"
| "cond_holds (QIn xs) v = (v \<in> set xs)"
| "cond_holds (QNin xs) v = (v \<notin> set xs)"

definition alternative_holds :: "doc \<Rightarrow> (string \<times> cond) list \<Rightarrow> bool" where
  "alternative_holds d alt = list_all (\<lambda>(k, c). cond_holds c (get d k)) alt"

fun entry_holds :: "doc \<Rightarrow> string \<Rightarrow> qval \<Rightarrow> bool" where
  "entry_holds d k (Field c) = cond_holds c (get d k)"
| "entry_holds d k (OrQ alts) = list_ex (alternative_holds d) alts"

definition object_entry :: "query \<Rightarrow> string \<Rightarrow> qval option" where
  "object_entry q k = map_of (rev q) k"

definition matches :: "doc \<Rightarrow> query \<Rightarrow> bool" where
  "matches d q =
     list_all (\<lambda>k. case object_entry q k of None \<Rightarrow> True | Some qv \<Rightarrow> entry_holds d k qv)
       (map fst q)"

definition find_orders :: "db \<Rightarrow> query \<Rightarrow> doc list" where
  "find_orders d q = filter (\<lambda>ord. matches ord q) (map snd (orders d))"

definition countDocuments :: "db \<Rightarrow> query \<Rightarrow> nat" where
  "countDocuments d q = length (find_orders d q)"

text \<open>\<^verbatim>\<open>[userId, ...teamMemberIds]\<close>: the actor and the users whose \<^verbatim>\<open>assignedToLeader\<close> is
  the actor.\<close>

definition allUserIds :: "db \<Rightarrow> string \<Rightarrow> jsval list" where
  "allUserIds d userId =
     JStr userId #
     map (\<lambda>m. JStr (u_id m)) (filter (\<lambda>u. u_assignedToLeader u = Some userId) (users d))"

definition team_scope :: "db \<Rightarrow> string \<Rightarrow> string \<times> qval" where
  "team_scope d userId =
     (''$or'', OrQ [[(''createdBy'', QIn (allUserIds d userId))],
                   [(''assignedTo'', QIn (allUserIds d userId))]])"

definition is_admin :: "actor \<Rightarrow> bool" where
  "is_admin u = (actor_role u = ''Admin'' \<or> actor_role u = ''SuperAdmin'')"

definition getAllOrders_query :: "db \<Rightarrow> actor \<Rightarrow> query" where
  "getAllOrders_query d u = (if is_admin u then [] else [team_scope d (actor_id u)])"

text \<open>The listing; the population of \<^verbatim>\<open>createdBy\<close> and \<^verbatim>\<open>assignedTo\<close> on the documents it
  returns is left out.\<close>

definition getAllOrders :: "env \<Rightarrow> request \<Rightarrow> db \<Rightarrow> outcome" where
  "getAllOrders e req d =
     \<lparr>oc_response = Response 200 (OrdersReply (find_orders d (getAllOrders_query d (req_user req)))),
      oc_db = d, oc_emits = []\<rparr>"

definition not_cancelled :: "string \<times> qval" where
  "not_cancelled = (''dispatchStatus'', Field (QNe (JStr ''Order Cancelled'')))"

definition baseQuery :: "db \<Rightarrow> actor \<Rightarrow> query" where
  "baseQuery d u =
    (if is_admin u then [not_cancelled] else [not_cancelled, team_scope d (actor_id u)])"

definition dispatchFromOptions :: "jsval list" where
  "dispatchFromOptions =
     map JStr [''Patna'', ''Bareilly'', ''Ranchi'', ''Lucknow'', ''Delhi'', ''Jaipur'', ''Rajasthan'']"

definition installation_query :: "query \<Rightarrow> query" where
  "installation_query base = base @
     [(''dispatchStatus'', Field (QEq (JStr ''Delivered''))),
      (''installationStatus'',
         Field (QIn (map JStr [''Pending'', ''In Progress'', ''Site Not Ready'', ''Hold''])))]"

definition dispatch_query :: "query \<Rightarrow> query" where
  "dispatch_query base = base @
     [(''fulfillingStatus'', Field (QEq (JStr ''Fulfilled''))),
      (''dispatchStatus'', Field (QNe (JStr ''Delivered'')))]"

definition production_query :: "query \<Rightarrow> query" where
  "production_query base = base @
     [(''sostatus'', Field (QEq (JStr ''Approved''))),
      (''dispatchFrom'', Field (QNin dispatchFromOptions)),
      (''fulfillingStatus'', Field (QNe (JStr ''Fulfilled'')))]"

text \<open>The reply holds the counts \<^verbatim>\<open>all\<close>, \<^verbatim>\<open>installation\<close>, \<^verbatim>\<open>production\<close>, \<^verbatim>\<open>dispatch\<close>.\<close>

definition getDashboardCounts :: "env \<Rightarrow> request \<Rightarrow> db \<Rightarrow> outcome" where
  "getDashboardCounts e req d =
    (let base = baseQuery d (req_user req)
     in \<lparr>oc_response = Response 200
           (CountsReply (countDocuments d base)
                        (countDocuments d (installation_query base))
                        (countDocuments d (production_query base))
                        (countDocuments d (dispatch_query base))),
         oc_db = d, oc_emits = []\<rparr>)"

section \<open>Notifications: listing, mark read, clear\<close>

definition role_All :: "notification \<Rightarrow> bool" where
  "role_All n = (n_role n = ''All'')"

text \<open>\<^verbatim>\<open>Notification.find({ role: "All" }).sort({ timestamp: -1 }).limit(50)\<close>.\<close>

definition latest_notifications :: "db \<Rightarrow> notification list" where
  "latest_notifications d =
     take 50 (sort_key (\<lambda>n. - n_timestamp n) (filter role_All (notifications d)))"

definition getNotifications :: "env \<Rightarrow> request \<Rightarrow> db \<Rightarrow> outcome" where
  "getNotifications e req d =
    (if actor_id (req_user req) = []
     then refuse d (Response 401 (Err ''Unauthorized: User not authenticated''))
     else \<lparr>oc_response = Response 200 (NotifsReply (latest_notifications d)),
           oc_db = d, oc_emits = []\<rparr>)"

definition markNotificationsRead :: "env \<Rightarrow> request \<Rightarrow> db \<Rightarrow> outcome" where
  "markNotificationsRead e req d =
     \<lparr>oc_response = Response 200 (Msg ''Notifications marked as read''),
      oc_db = d\<lparr>notifications :=
                  map (\<lambda>n. if role_All n then n\<lparr>n_isRead := True\<rparr> else n) (notifications d)\<rparr>,
      oc_emits = []\<rparr>"

definition clearNotifications :: "env \<Rightarrow> request \<Rightarrow> db \<Rightarrow> outcome" where
  "clearNotifications e req d =
     \<lparr>oc_response = Response 200 (Msg ''Notifications cleared''),
      oc_db = d\<lparr>notifications := filter (\<lambda>n. \<not> role_All n) (notifications d)\<rparr>,
      oc_emits = []\<rparr>"

section \<open>Derived forms of the edit loop\<close>

text \<open>
  What one round of the loop stores for a field other than \<^verbatim>\<open>products\<close> (nothing when it
  leaves \<^verbatim>\<open>updateFields\<close> alone), and \<^verbatim>\<open>updateFields\<close> after the loop when the payload has
  no \<^verbatim>\<open>products\<close> key. Both are derived from \<open>collect_field\<close> below.
\<close>

definition field_value :: "env \<Rightarrow> request \<Rightarrow> string \<Rightarrow> jsval option" where
  "field_value e req field =
    (if upload_field req field then Some (JStr (''/Uploads/'' @ the (req_file req)))
     else if has (req_body req) field then
       (let val = get (req_body req) field in
        if nullish val then None
        else if is_date_field field then (if valid_date e val then Some (new_Date e val) else None)
        else Some val)
     else None)"

definition plain_fields :: "env \<Rightarrow> request \<Rightarrow> doc" where
  "plain_fields e req = (\<lambda>k. if k \<in> set allowedFields then field_value e req k else None)"

section \<open>Sample data\<close>

text \<open>An environment, actors, orders and requests at which the properties below are
  evaluated. In \<open>env0\<close> every document is valid, no string parses as a date or a number,
  and the clock reads 1000.\<close>

definition env0 :: env where
  "env0 = \<lparr>env_now = 1000, env_number = (\<lambda>v. NaN), env_date = (\<lambda>v. None),
     env_string = (\<lambda>v. []), env_json_parse = (\<lambda>s. None), env_json_stringify = (\<lambda>v. []),
     env_valid = (\<lambda>d. True), env_new_id = (\<lambda>n. ''n1''), env_valid_id = (\<lambda>i. True),
     env_populate = (\<lambda>v. v)\<rparr>"

definition sales :: actor where
  "sales = \<lparr>actor_id = ''u9'', actor_role = ''Sales'', actor_username = ''zed'',
     actor_name = [], actor_email = []\<rparr>"

definition order1 :: doc where
  "order1 = [''_id'' \<mapsto> JStr ''o1'', ''createdBy'' \<mapsto> JStr ''u1'',
       ''sostatus'' \<mapsto> JStr ''Pending for Approval'']"

definition order2 :: doc where
  "order2 = [''_id'' \<mapsto> JStr ''o2'', ''createdBy'' \<mapsto> JStr ''u1'',
       ''sostatus'' \<mapsto> JStr ''Approved'', ''approvalTimestamp'' \<mapsto> JDate (Some 500)]"

definition db0 :: db where
  "db0 = \<lparr>orders = [(''o1'', order1), (''o2'', order2)], notifications = [], users = []\<rparr>"

definition edit_req :: "string \<Rightarrow> (string \<times> jsval) list \<Rightarrow> request" where
  "edit_req i kvs = \<lparr>req_user = sales, req_id = i, req_body = map_of kvs,
     req_file = None, req_sheet = []\<rparr>"

definition order3 :: doc where
  "order3 = [''_id'' \<mapsto> JStr ''o3'', ''createdBy'' \<mapsto> JStr ''u1'',
       ''dispatchFrom'' \<mapsto> JStr ''Morinda'', ''fulfillingStatus'' \<mapsto> JStr ''Not Fulfilled'']"

definition order4 :: doc where
  "order4 = [''_id'' \<mapsto> JStr ''o4'', ''createdBy'' \<mapsto> JStr ''u1'',
       ''dispatchFrom'' \<mapsto> JStr ''Delhi'', ''fulfillingStatus'' \<mapsto> JStr ''Fulfilled'',
       ''fulfillmentDate'' \<mapsto> JDate (Some 500)]"

definition order5 :: doc where
  "order5 = [''_id'' \<mapsto> JStr ''o5'', ''createdBy'' \<mapsto> JStr ''u1'',
       ''dispatchFrom'' \<mapsto> JStr ''Delhi'', ''dispatchStatus'' \<mapsto> JStr ''Not Dispatched'']"

definition env1 :: env where
  "env1 = env0\<lparr>env_date := (\<lambda>v. if v = JStr ''2025-01-01'' then Some 700 else None)\<rparr>"

definition db1 :: db where
  "db1 = \<lparr>orders = [(''o3'', order3), (''o4'', order4), (''o5'', order5)],
     notifications = [], users = []\<rparr>"




section \<open>The total as the specification states it\<close>




section \<open>Sample requests\<close>








definition admin :: actor where
  "admin = \<lparr>actor_id = ''a1'', actor_role = ''Admin'', actor_username = ''root'',
     actor_name = [], actor_email = []\<rparr>"



definition row_b2g :: jsval where
  "row_b2g = JObj [(''Product Type'', JStr ''Camera''), (''Quantity'', JNum (Fin 2)),
     (''Unit Price'', JNum (Fin 100)), (''GST'', JNum (Fin 18)), (''Order Type'', JStr ''B2G''),
     (''Payment Terms'', JStr ''Credit'')]"

definition row_free :: jsval where
  "row_free = JObj [(''Product Type'', JStr ''Cable''), (''Quantity'', JNum (Fin 1)),
     (''Unit Price'', JNum (Fin 0)), (''GST'', JNum (Fin 18)), (''Payment Terms'', JStr ''Credit'')]"

definition bulk_req :: "jsval list \<Rightarrow> request" where
  "bulk_req rows = \<lparr>req_user = sales, req_id = [], req_body = Map.empty,
     req_file = Some ''orders.xlsx'', req_sheet = rows\<rparr>"

definition import_req :: "jsval \<Rightarrow> request" where
  "import_req row = \<lparr>req_user = sales, req_id = [],
     req_body = map_of [(''products'', JArr [row_product env0 row]),
       (''orderType'', js_prop row ''Order Type''),
       (''paymentTerms'', js_prop row ''Payment Terms'')],
     req_file = None, req_sheet = []\<rparr>"

definition env3 :: env where
  "env3 = env0\<lparr>env_json_stringify := (\<lambda>v. if v = row_free then ''row_free'' else [])\<rparr>"

definition order8 :: doc where
  "order8 = [''_id'' \<mapsto> JStr ''o8'', ''createdBy'' \<mapsto> JStr ''u1'',
       ''fulfillingStatus'' \<mapsto> JStr ''Fulfilled'', ''dispatchStatus'' \<mapsto> JStr ''Order Cancelled'']"

definition db5 :: db where
  "db5 = \<lparr>orders = [(''o8'', order8)], notifications = [], users = []\<rparr>"

definition get_req :: "actor \<Rightarrow> request" where
  "get_req u = \<lparr>req_user = u, req_id = [], req_body = Map.empty, req_file = None, req_sheet = []\<rparr>"

definition note1 :: notification where
  "note1 = \<lparr>n_id = ''n1'', n_message = ''New sales order created by zed'', n_timestamp = 10,
     n_isRead = False, n_role = ''All'', n_userId = Some ''u9''\<rparr>"

definition note2 :: notification where
  "note2 = \<lparr>n_id = ''n2'', n_message = ''Order updated by root'', n_timestamp = 30,
     n_isRead = False, n_role = ''All'', n_userId = Some ''a1''\<rparr>"

definition note3 :: notification where
  "note3 = \<lparr>n_id = ''n3'', n_message = ''Maintenance'', n_timestamp = 20,
     n_isRead = False, n_role = ''Admin'', n_userId = None\<rparr>"

definition db6 :: db where
  "db6 = \<lparr>orders = [], notifications = [note1, note2, note3], users = []\<rparr>"

section \<open>Properties\<close>

subsection \<open>The loop over the allowed fields\<close>

lemma collect_field_nonproducts:
  "f \<noteq> ''products'' \<Longrightarrow>
   collect_field e req ex f st =
     Inr (case field_value e req f of None \<Rightarrow> st | Some v \<Rightarrow> ((fst st)(f \<mapsto> v), snd st))"
  by (simp add: collect_field_def field_value_def Let_def)

lemma collect_field_other:
  "collect_field e req ex f st = Inr st' \<Longrightarrow> k \<noteq> f \<Longrightarrow> fst st' k = fst st k"
  by (auto simp: collect_field_def collect_products_def Let_def
      split: if_splits jsval.splits option.splits bool.splits)

lemma collect_field_same:
  "collect_field e req ex f st = Inr st' \<Longrightarrow> f \<noteq> ''products'' \<Longrightarrow>
   fst st' f = (case field_value e req f of None \<Rightarrow> fst st f | Some v \<Rightarrow> Some v)"
  by (auto simp: collect_field_nonproducts split: option.splits)

lemma collect_fields_at:
  "collect_fields e req ex fs st = Inr st' \<Longrightarrow> k \<noteq> ''products'' \<Longrightarrow>
   fst st' k = (if k \<in> set fs
                then (case field_value e req k of None \<Rightarrow> fst st k | Some v \<Rightarrow> Some v)
                else fst st k)"
proof (induction fs arbitrary: st)
  case Nil
  then show ?case by simp
next
  case (Cons f fs)
  then obtain st1 where s1: "collect_field e req ex f st = Inr st1"
    and s2: "collect_fields e req ex fs st1 = Inr st'"
    by (auto split: sum.splits)
  note ih = Cons.IH[OF s2 Cons.prems(2)]
  show ?case
  proof (cases "k = f")
    case True
    with collect_field_same[OF s1] Cons.prems(2) ih show ?thesis
      by (auto split: option.splits)
  next
    case False
    with collect_field_other[OF s1 False] ih show ?thesis
      by (auto split: option.splits)
  qed
qed

lemma updateFields_at:
  "collect_fields e req ex allowedFields (Map.empty, False) = Inr st \<Longrightarrow> k \<noteq> ''products'' \<Longrightarrow>
   fst st k = plain_fields e req k"
  by (drule collect_fields_at[where k = k]) (auto simp: plain_fields_def split: option.splits)

lemma collect_field_Inl:
  "collect_field e req ex f st = Inl r \<Longrightarrow> status r = 400 \<or> status r = 500"
  by (auto simp: collect_field_def collect_products_def server_error_def Let_def
      split: if_splits jsval.splits option.splits bool.splits)

lemma collect_fields_Inl:
  "collect_fields e req ex fs st = Inl r \<Longrightarrow> status r = 400 \<or> status r = 500"
  by (induction fs arbitrary: st) (auto split: sum.splits dest: collect_field_Inl)

lemma editEntry_200:
  assumes "status (oc_response (editEntry e req d)) = 200"
  obtains existingOrder st where
    "findById d (req_id req) = Some existingOrder"
    "collect_fields e req existingOrder allowedFields (Map.empty, False) = Inr st"
    "env_valid e (transition_rules e req existingOrder st)"
    "findById (oc_db (editEntry e req d)) (req_id req) =
       Some (apply_set existingOrder (transition_rules e req existingOrder st))"
  using assms
  by (auto simp: editEntry_def refuse_def server_error_def Let_def findById_def update_conv'
      split: option.splits sum.splits if_splits dest: collect_fields_Inl)

text \<open>Without a products key the loop cannot fail.\<close>

lemma collect_field_plain:
  assumes "\<not> has (req_body req) ''products''"
  shows "collect_field e req ex f st =
     Inr (case field_value e req f of None \<Rightarrow> fst st | Some v \<Rightarrow> (fst st)(f \<mapsto> v), snd st)"
proof (cases "f = ''products''")
  case True
  have "\<not> upload_field req ''products''" by (simp add: upload_field_def)
  then show ?thesis using assms True by (simp add: collect_field_def field_value_def)
next
  case False
  then show ?thesis by (simp add: collect_field_nonproducts split: option.splits)
qed

lemma collect_fields_plain:
  "\<not> has (req_body req) ''products'' \<Longrightarrow>
   collect_fields e req ex fs st =
     Inr (\<lambda>k. if k \<in> set fs
              then (case field_value e req k of None \<Rightarrow> fst st k | Some v \<Rightarrow> Some v)
              else fst st k, snd st)"
proof (induction fs arbitrary: st)
  case Nil
  then show ?case by simp
next
  case (Cons f fs)
  show ?case
    by (simp add: collect_field_plain[OF Cons.prems] Cons.IH[OF Cons.prems])
       (auto intro!: ext split: option.splits)
qed

lemma editEntry_plain:
  assumes "findById d (req_id req) = Some ex"
    and "\<not> has (req_body req) ''products''"
    and "env_valid e (transition_rules e req ex (plain_fields e req, False))"
  shows "status (oc_response (editEntry e req d)) = 200"
    and "findById (oc_db (editEntry e req d)) (req_id req) =
           Some (apply_set ex (transition_rules e req ex (plain_fields e req, False)))"
proof -
  have c: "collect_fields e req ex allowedFields (Map.empty, False) = Inr (plain_fields e req, False)"
    by (simp add: collect_fields_plain[OF assms(2)] plain_fields_def)
       (auto intro!: ext split: option.splits)
  show "status (oc_response (editEntry e req d)) = 200"
    using assms(1,3) by (simp add: editEntry_def c Let_def)
  show "findById (oc_db (editEntry e req d)) (req_id req) =
           Some (apply_set ex (transition_rules e req ex (plain_fields e req, False)))"
    using assms(1,3) by (simp add: editEntry_def c Let_def findById_def update_conv')
qed

subsection \<open>The transition rules, field by field\<close>

lemma get_apply_set:
  "get (apply_set d u) k = (case u k of None \<Rightarrow> get d k | Some v \<Rightarrow> v)"
  by (simp add: get_def apply_set_def map_add_def split: option.splits)

lemma approval_rule_frame: "k \<noteq> ''approvalTimestamp'' \<Longrightarrow> approval_rule e ex uf k = uf k"
  by (simp add: approval_rule_def)

lemma products_edit_rule_frame:
  "k \<noteq> ''productsEditTimestamp'' \<Longrightarrow> products_edit_rule e b uf k = uf k"
  by (simp add: products_edit_rule_def)

lemma morinda_rule_frame:
  "k \<noteq> ''fulfillingStatus'' \<Longrightarrow> k \<noteq> ''completionStatus'' \<Longrightarrow> k \<noteq> ''fulfillmentDate'' \<Longrightarrow>
   morinda_rule e req ex uf k = uf k"
  by (simp add: morinda_rule_def)

lemma dispatch_date_rule_frame: "k \<noteq> ''dispatchDate'' \<Longrightarrow> dispatch_date_rule e req ex uf k = uf k"
  by (simp add: dispatch_date_rule_def)

lemma receipt_date_rule_frame: "k \<noteq> ''receiptDate'' \<Longrightarrow> receipt_date_rule e ex uf k = uf k"
  by (simp add: receipt_date_rule_def)

lemmas rule_frames = approval_rule_frame products_edit_rule_frame morinda_rule_frame
  dispatch_date_rule_frame receipt_date_rule_frame

lemma get_eqI: "d k = d' k \<Longrightarrow> get d k = get d' k"
  by (simp add: get_def)

lemma rules_approvalTimestamp:
  "transition_rules e req ex st ''approvalTimestamp'' =
     (if get (fst st) ''sostatus'' = JStr ''Approved'' \<and> get ex ''sostatus'' \<noteq> JStr ''Approved''
      then Some (date_now e) else fst st ''approvalTimestamp'')"
  by (simp add: transition_rules_def rule_frames) (simp add: approval_rule_def)

lemma in_allowedFields:
  "''sostatus'' \<in> set allowedFields"
  "''dispatchFrom'' \<in> set allowedFields"
  "''fulfillingStatus'' \<in> set allowedFields"
  "''completionStatus'' \<in> set allowedFields"
  "''fulfillmentDate'' \<in> set allowedFields"
  "''dispatchStatus'' \<in> set allowedFields"
  "''dispatchDate'' \<in> set allowedFields"
  "''receiptDate'' \<in> set allowedFields"
  by (simp_all add: allowedFields_def)

lemma not_allowedFields:
  "''approvalTimestamp'' \<notin> set allowedFields"
  "''productsEditTimestamp'' \<notin> set allowedFields"
  by (simp_all add: allowedFields_def)

text \<open>A field that is neither the upload nor a date: the loop copies a value that is not nullish.\<close>

lemma field_value_copy:
  "k \<noteq> ''installationFile'' \<Longrightarrow> \<not> is_date_field k \<Longrightarrow>
   field_value e req k = (if nullish (get (req_body req) k) then None else req_body req k)"
  by (simp add: field_value_def upload_field_def has_def get_def nullish_def split: option.splits)

lemma not_date_installationFile: "\<not> is_date_field ''installationFile''"
  by (simp add: is_date_field_def ends_with_def)

lemma field_value_date:
  assumes "is_date_field k"
  shows "field_value e req k =
     (if has (req_body req) k \<and> \<not> nullish (get (req_body req) k) \<and> valid_date e (get (req_body req) k)
      then Some (new_Date e (get (req_body req) k)) else None)"
proof -
  from assms have "k \<noteq> ''installationFile''"
    using not_date_installationFile by auto
  then have "\<not> upload_field req k"
    by (simp add: upload_field_def)
  with assms show ?thesis
    by (simp add: field_value_def Let_def)
qed

lemma plain_sostatus:
  "plain_fields e req ''sostatus'' =
     (if nullish (get (req_body req) ''sostatus'') then None else req_body req ''sostatus'')"
  by (simp add: plain_fields_def in_allowedFields field_value_copy is_date_field_def ends_with_def)

lemma plain_approvalTimestamp: "plain_fields e req ''approvalTimestamp'' = None"
  by (simp add: plain_fields_def not_allowedFields)

subsection \<open>The approval rule\<close>

text \<open>
  Claim C5. Whenever an edit succeeds: if its payload sets \<^verbatim>\<open>sostatus\<close> to "Approved" and
  the stored \<^verbatim>\<open>sostatus\<close> is anything else, the order's \<^verbatim>\<open>approvalTimestamp\<close> afterwards is
  the time of the operation; if the stored \<^verbatim>\<open>sostatus\<close> is already "Approved", the edit
  leaves \<^verbatim>\<open>approvalTimestamp\<close> as it was.
\<close>

theorem approval_sets_timestamp_once:
  assumes ok: "status (oc_response (editEntry e req d)) = 200"
    and find: "findById d (req_id req) = Some existingOrder"
  shows "(req_body req ''sostatus'' = Some (JStr ''Approved'') \<and>
          get existingOrder ''sostatus'' \<noteq> JStr ''Approved'' \<longrightarrow>
            (\<exists>u. findById (oc_db (editEntry e req d)) (req_id req) = Some u \<and>
                 get u ''approvalTimestamp'' = date_now e)) \<and>
         (get existingOrder ''sostatus'' = JStr ''Approved'' \<longrightarrow>
            (\<exists>u. findById (oc_db (editEntry e req d)) (req_id req) = Some u \<and>
                 get u ''approvalTimestamp'' = get existingOrder ''approvalTimestamp''))"
proof -
  from ok obtain ex st where
    f: "findById d (req_id req) = Some ex"
    and c: "collect_fields e req ex allowedFields (Map.empty, False) = Inr st"
    and r: "findById (oc_db (editEntry e req d)) (req_id req) =
       Some (apply_set ex (transition_rules e req ex st))"
    by (rule editEntry_200)
  from f find have ex: "ex = existingOrder" by simp
  have s: "fst st ''sostatus'' = plain_fields e req ''sostatus''"
    and a: "fst st ''approvalTimestamp'' = None"
    using updateFields_at[OF c] by (simp_all add: plain_approvalTimestamp)
  have g: "req_body req ''sostatus'' = Some (JStr ''Approved'') \<Longrightarrow>
           get (fst st) ''sostatus'' = JStr ''Approved''"
    by (simp add: get_def s plain_sostatus nullish_def)
  have ts: "get (apply_set ex (transition_rules e req ex st)) ''approvalTimestamp'' =
        (if get (fst st) ''sostatus'' = JStr ''Approved'' \<and> get ex ''sostatus'' \<noteq> JStr ''Approved''
         then date_now e else get ex ''approvalTimestamp'')"
    by (simp add: get_apply_set rules_approvalTimestamp a)
  show ?thesis
    using r ts g by (simp add: ex)
qed

text \<open>Both cases at sample orders: one pending approval, one approved at instant 500.\<close>

theorem approval_sets_timestamp_once_witness:
  "(status (oc_response (editEntry env0 (edit_req ''o1'' [(''sostatus'', JStr ''Approved'')]) db0)) = 200 \<and>
    get order1 ''sostatus'' \<noteq> JStr ''Approved'' \<and>
    (\<exists>u. findById (oc_db (editEntry env0 (edit_req ''o1'' [(''sostatus'', JStr ''Approved'')]) db0)) ''o1'' = Some u \<and>
         get u ''approvalTimestamp'' = JDate (Some 1000))) \<and>
   (status (oc_response (editEntry env0 (edit_req ''o2'' [(''sostatus'', JStr ''Approved'')]) db0)) = 200 \<and>
    get order2 ''sostatus'' = JStr ''Approved'' \<and>
    (\<exists>u. findById (oc_db (editEntry env0 (edit_req ''o2'' [(''sostatus'', JStr ''Approved'')]) db0)) ''o2'' = Some u \<and>
         get u ''approvalTimestamp'' = JDate (Some 500)))"
proof -
  let ?r1 = "edit_req ''o1'' [(''sostatus'', JStr ''Approved'')]"
  let ?r2 = "edit_req ''o2'' [(''sostatus'', JStr ''Approved'')]"
  have f1: "findById db0 (req_id ?r1) = Some order1" and f2: "findById db0 (req_id ?r2) = Some order2"
    by (simp_all add: findById_def db0_def edit_req_def)
  have ok1: "status (oc_response (editEntry env0 ?r1 db0)) = 200"
    by (rule editEntry_plain(1)[OF f1]) (simp_all add: edit_req_def has_def env0_def)
  have ok2: "status (oc_response (editEntry env0 ?r2 db0)) = 200"
    by (rule editEntry_plain(1)[OF f2]) (simp_all add: edit_req_def has_def env0_def)
  show ?thesis
    using approval_sets_timestamp_once[OF ok1 f1] approval_sets_timestamp_once[OF ok2 f2] ok1 ok2
    by (simp add: edit_req_def order1_def order2_def get_def date_now_def env0_def)
qed

subsection \<open>The fulfillment fields under the rules\<close>

lemma pre_rules_frame:
  "k \<noteq> ''approvalTimestamp'' \<Longrightarrow> k \<noteq> ''productsEditTimestamp'' \<Longrightarrow>
   products_edit_rule e b (approval_rule e ex uf) k = uf k"
  by (simp add: rule_frames)

lemma pre_rules_get:
  "k \<noteq> ''approvalTimestamp'' \<Longrightarrow> k \<noteq> ''productsEditTimestamp'' \<Longrightarrow>
   get (products_edit_rule e b (approval_rule e ex uf)) k = get uf k"
  by (simp add: get_def pre_rules_frame)

lemma pre_rules_changing:
  "dispatchFrom_changing ex (products_edit_rule e b (approval_rule e ex uf)) =
   dispatchFrom_changing ex uf"
  by (simp add: dispatchFrom_changing_def pre_rules_get)


lemma morinda_completionStatus:
  "morinda_rule e req ex uf ''completionStatus'' =
     (if dispatchFrom_changing ex uf
      then (if get uf ''dispatchFrom'' = JStr ''Morinda''
            then Some (JStr ''In Progress'') else Some (JStr ''Complete''))
      else if has (req_body req) ''fulfillingStatus'' \<and> get uf ''fulfillingStatus'' = JStr ''Fulfilled''
      then Some (JStr ''Complete'')
      else uf ''completionStatus'')"
  by (simp add: morinda_rule_def)

lemma morinda_fulfillmentDate:
  "morinda_rule e req ex uf ''fulfillmentDate'' =
     (if dispatchFrom_changing ex uf
      then (if get uf ''dispatchFrom'' = JStr ''Morinda''
            then uf ''fulfillmentDate'' else Some (date_now e))
      else if has (req_body req) ''fulfillingStatus'' \<and> get uf ''fulfillingStatus'' = JStr ''Fulfilled''
              \<and> \<not> truthy (get ex ''fulfillmentDate'')
      then Some (date_now e)
      else uf ''fulfillmentDate'')"
  by (simp add: morinda_rule_def)


lemma rules_completionStatus:
  "transition_rules e req ex st ''completionStatus'' =
     (if dispatchFrom_changing ex (fst st)
      then (if get (fst st) ''dispatchFrom'' = JStr ''Morinda''
            then Some (JStr ''In Progress'') else Some (JStr ''Complete''))
      else if has (req_body req) ''fulfillingStatus'' \<and>
              get (fst st) ''fulfillingStatus'' = JStr ''Fulfilled''
      then Some (JStr ''Complete'')
      else fst st ''completionStatus'')"
  by (simp add: transition_rules_def receipt_date_rule_frame dispatch_date_rule_frame
      morinda_completionStatus pre_rules_changing pre_rules_get pre_rules_frame)

lemma rules_fulfillmentDate:
  "transition_rules e req ex st ''fulfillmentDate'' =
     (if dispatchFrom_changing ex (fst st)
      then (if get (fst st) ''dispatchFrom'' = JStr ''Morinda''
            then fst st ''fulfillmentDate'' else Some (date_now e))
      else if has (req_body req) ''fulfillingStatus'' \<and>
              get (fst st) ''fulfillingStatus'' = JStr ''Fulfilled'' \<and>
              \<not> truthy (get ex ''fulfillmentDate'')
      then Some (date_now e)
      else fst st ''fulfillmentDate'')"
  by (simp add: transition_rules_def receipt_date_rule_frame dispatch_date_rule_frame
      morinda_fulfillmentDate pre_rules_changing pre_rules_get pre_rules_frame)

lemma copy_keys:
  "\<not> is_date_field ''sostatus''" "\<not> is_date_field ''dispatchFrom''"
  "\<not> is_date_field ''fulfillingStatus''" "\<not> is_date_field ''completionStatus''"
  "\<not> is_date_field ''dispatchStatus''" "\<not> is_date_field ''remarks''"
  by (simp_all add: is_date_field_def ends_with_def)

lemma date_keys:
  "is_date_field ''fulfillmentDate''" "is_date_field ''dispatchDate''"
  "is_date_field ''receiptDate''"
  by (simp_all add: is_date_field_def ends_with_def)

text \<open>A copied field as \<^verbatim>\<open>updateFields\<close> holds it after the loop.\<close>

lemma get_copied:
  assumes "uf k = plain_fields e req k" "k \<in> set allowedFields" "k \<noteq> ''installationFile''"
    "\<not> is_date_field k"
  shows "get uf k = (if nullish (get (req_body req) k) then JUndef else get (req_body req) k)"
  using assms by (simp add: get_def plain_fields_def field_value_copy split: option.splits)

lemma nullish_not_truthy: "nullish v \<Longrightarrow> \<not> truthy v"
  by (auto simp: nullish_def)

lemma changing_body:
  assumes "uf ''dispatchFrom'' = plain_fields e req ''dispatchFrom''"
  shows "dispatchFrom_changing ex uf = dispatchFrom_changing ex (req_body req)"
proof -
  have g: "get uf ''dispatchFrom'' =
      (if nullish (get (req_body req) ''dispatchFrom'') then JUndef
       else get (req_body req) ''dispatchFrom'')"
    by (rule get_copied[where uf = uf and k = "''dispatchFrom''" and e = e])
       (simp_all add: assms in_allowedFields copy_keys)
  show ?thesis
    by (cases "nullish (get (req_body req) ''dispatchFrom'')")
       (simp_all add: dispatchFrom_changing_def g nullish_not_truthy)
qed


subsection \<open>The dispatch origin rule\<close>



lemma plain_date:
  "k \<in> set allowedFields \<Longrightarrow> is_date_field k \<Longrightarrow>
   plain_fields e req k =
     (if has (req_body req) k \<and> \<not> nullish (get (req_body req) k) \<and>
         valid_date e (get (req_body req) k)
      then Some (new_Date e (get (req_body req) k)) else None)"
  by (simp add: plain_fields_def field_value_date)

lemma valid_date_not_nullish: "valid_date e v \<Longrightarrow> \<not> nullish v"
  using nullish_not_truthy by (auto simp: valid_date_def)


text \<open>A sample edit without products succeeds, and the stored order is the closed form.\<close>

lemma sample_edit:
  assumes "map_of (orders d) i = Some ex" "map_of kvs ''products'' = None" "env_valid e = (\<lambda>u. True)"
  shows "status (oc_response (editEntry e (edit_req i kvs) d)) = 200"
    and "findById (oc_db (editEntry e (edit_req i kvs) d)) i =
           Some (apply_set ex (transition_rules e (edit_req i kvs) ex
                   (plain_fields e (edit_req i kvs), False)))"
proof -
  have f: "findById d (req_id (edit_req i kvs)) = Some ex"
    using assms(1) by (simp add: findById_def edit_req_def)
  have h: "\<not> has (req_body (edit_req i kvs)) ''products''"
    using assms(2) by (simp add: has_def edit_req_def)
  have v: "env_valid e (transition_rules e (edit_req i kvs) ex (plain_fields e (edit_req i kvs), False))"
    using assms(3) by simp
  show "status (oc_response (editEntry e (edit_req i kvs) d)) = 200"
    by (rule editEntry_plain(1)[OF f h v])
  show "findById (oc_db (editEntry e (edit_req i kvs) d)) i =
           Some (apply_set ex (transition_rules e (edit_req i kvs) ex
                   (plain_fields e (edit_req i kvs), False)))"
    using editEntry_plain(2)[OF f h v] by (simp add: edit_req_def)
qed

lemma body_edit_req: "req_body (edit_req i kvs) = map_of kvs"
  by (simp add: edit_req_def)



lemma get_copied_value:
  assumes "uf k = plain_fields e req k" "k \<in> set allowedFields" "k \<noteq> ''installationFile''"
    "\<not> is_date_field k" "get (req_body req) k = JStr s"
  shows "get uf k = JStr s"
  using get_copied[where uf = uf and k = k and e = e and req = req] assms
  by (simp add: nullish_def)

lemma get_has: "get d k = JStr s \<Longrightarrow> has d k"
  by (auto simp: get_def has_def split: option.splits)

subsection \<open>Manual fulfillment\<close>

text \<open>
  Claim C7, as amended. Whenever an edit succeeds that sets \<^verbatim>\<open>fulfillingStatus\<close> to
  "Fulfilled" without changing \<^verbatim>\<open>dispatchFrom\<close>, on an order that already has a
  \<^verbatim>\<open>fulfillmentDate\<close>, and whose payload supplies no valid \<^verbatim>\<open>fulfillmentDate\<close> of its own:
  the \<^verbatim>\<open>fulfillmentDate\<close> is unchanged and \<^verbatim>\<open>completionStatus\<close> is "Complete" afterwards.
\<close>

theorem manual_fulfillment_keeps_date:
  assumes ok: "status (oc_response (editEntry e req d)) = 200"
    and find: "findById d (req_id req) = Some existingOrder"
    and fs: "get (req_body req) ''fulfillingStatus'' = JStr ''Fulfilled''"
    and nch: "\<not> dispatchFrom_changing existingOrder (req_body req)"
    and dated: "truthy (get existingOrder ''fulfillmentDate'')"
    and nodate: "\<not> valid_date e (get (req_body req) ''fulfillmentDate'')"
  shows "\<exists>u. findById (oc_db (editEntry e req d)) (req_id req) = Some u \<and>
           get u ''fulfillmentDate'' = get existingOrder ''fulfillmentDate'' \<and>
           get u ''completionStatus'' = JStr ''Complete''"
proof -
  from ok obtain ex st where
    f: "findById d (req_id req) = Some ex"
    and c: "collect_fields e req ex allowedFields (Map.empty, False) = Inr st"
    and r: "findById (oc_db (editEntry e req d)) (req_id req) =
       Some (apply_set ex (transition_rules e req ex st))"
    by (rule editEntry_200)
  from f find have ex: "ex = existingOrder" by simp
  have df: "fst st ''dispatchFrom'' = plain_fields e req ''dispatchFrom''"
    and fst_fs: "fst st ''fulfillingStatus'' = plain_fields e req ''fulfillingStatus''"
    and fst_fd: "fst st ''fulfillmentDate'' = plain_fields e req ''fulfillmentDate''"
    using updateFields_at[OF c] by simp_all
  have c1: "\<not> dispatchFrom_changing ex (fst st)"
    using changing_body[where uf = "fst st" and e = e and req = req and ex = ex] df nch ex by simp
  have g: "get (fst st) ''fulfillingStatus'' = JStr ''Fulfilled''"
    by (rule get_copied_value[where uf = "fst st" and e = e and req = req])
       (simp_all add: fst_fs fs in_allowedFields copy_keys)
  have h: "has (req_body req) ''fulfillingStatus''"
    by (rule get_has[OF fs])
  have fd: "fst st ''fulfillmentDate'' = None"
    using nodate by (simp add: fst_fd plain_date in_allowedFields date_keys)
  let ?u = "apply_set ex (transition_rules e req ex st)"
  have dated': "truthy (get ex ''fulfillmentDate'')"
    using dated ex by simp
  have "get ?u ''fulfillmentDate'' = get ex ''fulfillmentDate''"
    by (simp add: get_apply_set rules_fulfillmentDate c1 g h fd dated')
  moreover have "get ?u ''completionStatus'' = JStr ''Complete''"
    by (simp add: get_apply_set rules_completionStatus c1 g h)
  ultimately show ?thesis using r ex by simp
qed

text \<open>At a sample order fulfilled at instant 500 and dispatched from Delhi.\<close>

theorem manual_fulfillment_keeps_date_witness:
  "get (map_of [(''fulfillingStatus'', JStr ''Fulfilled'')]) ''fulfillingStatus'' = JStr ''Fulfilled'' \<and>
   \<not> dispatchFrom_changing order4 (map_of [(''fulfillingStatus'', JStr ''Fulfilled'')]) \<and>
   truthy (get order4 ''fulfillmentDate'') \<and>
   (\<exists>u. findById (oc_db (editEntry env0 (edit_req ''o4'' [(''fulfillingStatus'', JStr ''Fulfilled'')]) db1))
            ''o4'' = Some u \<and>
        get u ''fulfillmentDate'' = JDate (Some 500) \<and>
        get u ''completionStatus'' = JStr ''Complete'')"
proof -
  let ?r = "edit_req ''o4'' [(''fulfillingStatus'', JStr ''Fulfilled'')]"
  have ok: "status (oc_response (editEntry env0 ?r db1)) = 200"
    by (rule sample_edit(1)[where ex = order4]) (simp_all add: db1_def env0_def)
  have f: "findById db1 (req_id ?r) = Some order4"
    by (simp add: findById_def db1_def edit_req_def)
  have fs: "get (req_body ?r) ''fulfillingStatus'' = JStr ''Fulfilled''"
    by (simp add: body_edit_req get_def)
  have nch: "\<not> dispatchFrom_changing order4 (req_body ?r)"
    by (simp add: dispatchFrom_changing_def body_edit_req get_def)
  have dated: "truthy (get order4 ''fulfillmentDate'')"
    by (simp add: order4_def get_def)
  have nodate: "\<not> valid_date env0 (get (req_body ?r) ''fulfillmentDate'')"
    by (simp add: valid_date_def body_edit_req get_def)
  show ?thesis
    using manual_fulfillment_keeps_date[OF ok f fs nch dated nodate] fs nch dated
    by (simp add: body_edit_req) (simp add: order4_def get_def edit_req_def)
qed

text \<open>
  Claim C7 as stated fails: \<^verbatim>\<open>fulfillmentDate\<close> is itself an allowed field, and an edit that
  sets \<^verbatim>\<open>fulfillingStatus\<close> to "Fulfilled" and supplies a date replaces the stored one.
\<close>

theorem fulfillmentDate_payload_counterexample:
  "get order4 ''fulfillmentDate'' = JDate (Some 500) \<and>
   \<not> dispatchFrom_changing order4 (req_body (edit_req ''o4''
       [(''fulfillingStatus'', JStr ''Fulfilled''), (''fulfillmentDate'', JStr ''2025-01-01'')])) \<and>
   status (oc_response (editEntry env1 (edit_req ''o4''
       [(''fulfillingStatus'', JStr ''Fulfilled''), (''fulfillmentDate'', JStr ''2025-01-01'')]) db1)) = 200 \<and>
   get (the (findById (oc_db (editEntry env1 (edit_req ''o4''
       [(''fulfillingStatus'', JStr ''Fulfilled''), (''fulfillmentDate'', JStr ''2025-01-01'')]) db1))
     ''o4'')) ''fulfillmentDate'' = JDate (Some 700)"
proof -
  let ?r = "edit_req ''o4''
       [(''fulfillingStatus'', JStr ''Fulfilled''), (''fulfillmentDate'', JStr ''2025-01-01'')]"
  have ok: "status (oc_response (editEntry env1 ?r db1)) = 200"
    by (rule sample_edit(1)[where ex = order4]) (simp_all add: db1_def env1_def env0_def)
  have res: "findById (oc_db (editEntry env1 ?r db1)) ''o4'' =
      Some (apply_set order4 (transition_rules env1 ?r order4 (plain_fields env1 ?r, False)))"
    by (rule sample_edit(2)) (simp_all add: db1_def env1_def env0_def)
  have nb: "\<not> dispatchFrom_changing order4 (req_body ?r)"
    by (simp add: dispatchFrom_changing_def body_edit_req get_def)
  have "dispatchFrom_changing order4 (plain_fields env1 ?r) =
        dispatchFrom_changing order4 (req_body ?r)"
    by (rule changing_body) simp
  with nb have nc: "\<not> dispatchFrom_changing order4 (plain_fields env1 ?r)"
    by simp
  have fd: "plain_fields env1 ?r ''fulfillmentDate'' = Some (JDate (Some 700))"
    by (simp add: plain_date in_allowedFields date_keys body_edit_req get_def has_def nullish_def
        valid_date_def new_Date_def env1_def)
  have old: "truthy (get order4 ''fulfillmentDate'')" "get order4 ''fulfillmentDate'' = JDate (Some 500)"
    by (simp_all add: order4_def get_def)
  show ?thesis
    by (simp add: ok res nb old get_apply_set rules_fulfillmentDate nc fd)
qed

subsection \<open>Dispatch and receipt dates\<close>







subsection \<open>Who may edit\<close>












subsection \<open>createOrder\<close>

lemma refuse_simps [simp]:
  "oc_response (refuse d r) = r" "oc_db (refuse d r) = d" "oc_emits (refuse d r) = []"
  by (simp_all add: refuse_def)

























subsection \<open>The rooms of the real-time events\<close>
















subsection \<open>The bulk upload\<close>

lemma row_error_status: "status (row_error e msg row) = 400"
  by (simp add: row_error_def)

lemma row_check_Some:
  "row_check e row = Some r \<Longrightarrow>
   status r = 400 \<and> (\<exists>msg. reply r = Err (msg @ env_json_stringify e row))"
  by (auto simp: row_check_def row_error_def Let_def split: if_splits)

lemma bulk_rows_Inr:
  "bulk_rows e req rows = Inr os \<Longrightarrow>
   os = map (row_order e req) rows \<and> (\<forall>row \<in> set rows. row_check e row = None)"
  by (induction rows arbitrary: os) (auto split: option.splits sum.splits)

lemma bulk_rows_Inl:
  "bulk_rows e req rows = Inl r \<Longrightarrow>
   \<exists>pre row post. rows = pre @ row # post \<and> (\<forall>x \<in> set pre. row_check e x = None) \<and>
      row_check e row = Some r"
proof (induction rows)
  case Nil
  then show ?case by simp
next
  case (Cons x rows)
  show ?case
  proof (cases "row_check e x")
    case (Some r')
    with Cons.prems have "r' = r" by simp
    with Some have "x # rows = [] @ x # rows \<and> (\<forall>y \<in> set []. row_check e y = None) \<and>
        row_check e x = Some r"
      by simp
    then show ?thesis by blast
  next
    case None
    with Cons.prems have "bulk_rows e req rows = Inl r"
      by (auto split: sum.splits)
    from Cons.IH[OF this] obtain pre row post where
      "rows = pre @ row # post" "\<forall>y \<in> set pre. row_check e y = None" "row_check e row = Some r"
      by blast
    with None have "x # rows = (x # pre) @ row # post \<and>
        (\<forall>y \<in> set (x # pre). row_check e y = None) \<and> row_check e row = Some r"
      by simp
    then show ?thesis by blast
  qed
qed

lemma bulk_rows_invalid:
  "row \<in> set rows \<Longrightarrow> row_check e row \<noteq> None \<Longrightarrow> \<exists>r. bulk_rows e req rows = Inl r"
  by (induction rows) (auto split: option.splits sum.splits)

lemma length_with_ids: "length (with_ids e os) = length os"
  by (simp add: with_ids_def)

lemma nth_with_ids:
  "i < length os \<Longrightarrow>
   with_ids e os ! i = (env_new_id e i, (os ! i)(''_id'' \<mapsto> JStr (env_new_id e i)))"
  by (simp add: with_ids_def nth_enumerate_eq)

lemma row_order_products: "get (row_order e req row) ''products'' = JArr [row_product e row]"
  by (simp add: row_order_def get_def Let_def)

lemma bulkUploadOrders_201:
  assumes "status (oc_response (bulkUploadOrders e req d)) = 201"
  shows "bulk_rows e req (req_sheet req) = Inr (map (row_order e req) (req_sheet req))"
    and "orders (oc_db (bulkUploadOrders e req d)) =
           orders d @ with_ids e (map (row_order e req) (req_sheet req))"
proof -
  from assms obtain os where os: "bulk_rows e req (req_sheet req) = Inr os"
    and o: "orders (oc_db (bulkUploadOrders e req d)) = orders d @ with_ids e os"
    using bulk_rows_Inl[of e req "req_sheet req"] row_check_Some[of e]
    by (auto simp: bulkUploadOrders_def Let_def split: if_splits sum.splits)
  from bulk_rows_Inr[OF os] have "os = map (row_order e req) (req_sheet req)"
    by simp
  with os o show "bulk_rows e req (req_sheet req) = Inr (map (row_order e req) (req_sheet req))"
    and "orders (oc_db (bulkUploadOrders e req d)) =
           orders d @ with_ids e (map (row_order e req) (req_sheet req))"
    by simp_all
qed

text \<open>
  Claim C9, as amended. A successful bulk upload adds one order for each row of the
  sheet, in order, and each holds exactly the one product built from its row; every row
  has then passed the checks of the upload (the product's fields, its numbers, the IFPD
  rule and the dispatch location). When a file is uploaded and some row fails those
  checks, the answer is a 400 whose error ends with the first such row, nothing is
  written and nothing is emitted.
\<close>

theorem bulk_import:
  "(status (oc_response (bulkUploadOrders e req d)) = 201 \<longrightarrow>
      (\<exists>saved. orders (oc_db (bulkUploadOrders e req d)) = orders d @ saved \<and>
         length saved = length (req_sheet req) \<and>
         (\<forall>i < length saved.
            get (snd (saved ! i)) ''products'' = JArr [row_product e (req_sheet req ! i)]) \<and>
         (\<forall>row \<in> set (req_sheet req). row_check e row = None))) \<and>
   (req_file req \<noteq> None \<and> (\<exists>row \<in> set (req_sheet req). row_check e row \<noteq> None) \<longrightarrow>
      status (oc_response (bulkUploadOrders e req d)) = 400 \<and>
      oc_db (bulkUploadOrders e req d) = d \<and>
      oc_emits (bulkUploadOrders e req d) = [] \<and>
      (\<exists>pre row post msg.
         req_sheet req = pre @ row # post \<and>
         (\<forall>x \<in> set pre. row_check e x = None) \<and> row_check e row \<noteq> None \<and>
         reply (oc_response (bulkUploadOrders e req d)) = Err (msg @ env_json_stringify e row)))"
proof (intro conjI impI)
  assume ok: "status (oc_response (bulkUploadOrders e req d)) = 201"
  let ?saved = "with_ids e (map (row_order e req) (req_sheet req))"
  note b = bulkUploadOrders_201[OF ok]
  have "\<forall>i < length ?saved.
          get (snd (?saved ! i)) ''products'' = JArr [row_product e (req_sheet req ! i)]"
    using row_order_products[of e req]
    by (simp add: length_with_ids nth_with_ids get_def)
  moreover have "\<forall>row \<in> set (req_sheet req). row_check e row = None"
    using bulk_rows_Inr[OF b(1)] by simp
  ultimately show "\<exists>saved. orders (oc_db (bulkUploadOrders e req d)) = orders d @ saved \<and>
         length saved = length (req_sheet req) \<and>
         (\<forall>i < length saved.
            get (snd (saved ! i)) ''products'' = JArr [row_product e (req_sheet req ! i)]) \<and>
         (\<forall>row \<in> set (req_sheet req). row_check e row = None)"
    using b(2) by (intro exI[of _ ?saved]) (simp add: length_with_ids)
next
  assume a: "req_file req \<noteq> None \<and> (\<exists>row \<in> set (req_sheet req). row_check e row \<noteq> None)"
  then obtain r where r: "bulk_rows e req (req_sheet req) = Inl r"
    using bulk_rows_invalid[of _ "req_sheet req" e req] by blast
  from a r have out: "bulkUploadOrders e req d = refuse d r"
    by (auto simp: bulkUploadOrders_def)
  from bulk_rows_Inl[OF r] obtain pre row post where
    p: "req_sheet req = pre @ row # post" "\<forall>x \<in> set pre. row_check e x = None"
       "row_check e row = Some r"
    by blast
  from row_check_Some[OF p(3)] obtain msg where
    m: "status r = 400" "reply r = Err (msg @ env_json_stringify e row)"
    by blast
  show "status (oc_response (bulkUploadOrders e req d)) = 400"
    and "oc_db (bulkUploadOrders e req d) = d"
    and "oc_emits (bulkUploadOrders e req d) = []"
    by (simp_all add: out m(1))
  from p m(2) show "\<exists>pre row post msg.
         req_sheet req = pre @ row # post \<and>
         (\<forall>x \<in> set pre. row_check e x = None) \<and> row_check e row \<noteq> None \<and>
         reply (oc_response (bulkUploadOrders e req d)) = Err (msg @ env_json_stringify e row)"
    by (simp add: out) blast
qed

lemma sample_row_checks:
  "row_check e row_b2g = None"
  "row_check env3 row_free = Some (Response 400 (Err (''Invalid product data in row: '' @ ''row_free'')))"
  by (simp_all add: row_check_def row_product_def row_b2g_def row_free_def js_prop_def js_or_def
      to_number_def isNaN_def bulk_missing_field_def bulk_bad_numbers_def ifpd_incomplete_def
      invalid_dispatchFrom_def default_warranty_def row_error_def env3_def Let_def)

lemma sample_bulk_ok:
  "status (oc_response (bulkUploadOrders env0 (bulk_req [row_b2g]) db0)) = 201"
  by (simp add: bulkUploadOrders_def bulk_req_def sample_row_checks env0_def Let_def)

text \<open>A sheet with one good row; and a sheet whose second row has a unit price of zero.\<close>

theorem bulk_import_witness:
  "status (oc_response (bulkUploadOrders env0 (bulk_req [row_b2g]) db0)) = 201 \<and>
   (\<exists>saved. orders (oc_db (bulkUploadOrders env0 (bulk_req [row_b2g]) db0)) = orders db0 @ saved \<and>
      length saved = 1 \<and>
      get (snd (saved ! 0)) ''products'' = JArr [row_product env0 row_b2g]) \<and>
   row_check env3 row_free \<noteq> None \<and>
   status (oc_response (bulkUploadOrders env3 (bulk_req [row_b2g, row_free]) db0)) = 400 \<and>
   oc_db (bulkUploadOrders env3 (bulk_req [row_b2g, row_free]) db0) = db0 \<and>
   oc_emits (bulkUploadOrders env3 (bulk_req [row_b2g, row_free]) db0) = []"
proof -
  have s: "req_sheet (bulk_req [row_b2g]) = [row_b2g]"
    "req_sheet (bulk_req [row_b2g, row_free]) = [row_b2g, row_free]"
    "req_file (bulk_req [row_b2g, row_free]) \<noteq> None"
    by (simp_all add: bulk_req_def)
  have bad: "row_check env3 row_free \<noteq> None"
    by (simp add: sample_row_checks)
  from bulk_import[where e = env0 and req = "bulk_req [row_b2g]" and d = db0, THEN conjunct1,
      THEN mp, OF sample_bulk_ok]
  have a: "\<exists>saved. orders (oc_db (bulkUploadOrders env0 (bulk_req [row_b2g]) db0)) = orders db0 @ saved \<and>
      length saved = 1 \<and>
      get (snd (saved ! 0)) ''products'' = JArr [row_product env0 row_b2g]"
    unfolding s by auto
  from bulk_import[where e = env3 and req = "bulk_req [row_b2g, row_free]" and d = db0,
      THEN conjunct2] s(3) bad
  have b: "status (oc_response (bulkUploadOrders env3 (bulk_req [row_b2g, row_free]) db0)) = 400 \<and>
   oc_db (bulkUploadOrders env3 (bulk_req [row_b2g, row_free]) db0) = db0 \<and>
   oc_emits (bulkUploadOrders env3 (bulk_req [row_b2g, row_free]) db0) = []"
    unfolding s by simp
  from a b bad sample_bulk_ok show ?thesis
    by simp
qed

lemma sample_import_create:
  "oc_response (createOrder env0 (import_req row_b2g) db0) =
     Response 400 (Err ''Missing GEM Order Number'')"
  by (simp add: createOrder_def checked_products_def import_req_def get_def parse_products_def
      order_type_check_def row_b2g_def js_prop_def)

lemma sample_free_create:
  "status (oc_response (createOrder env0 (import_req row_free) db0)) = 201"
proof -
  have "\<exists>ps. checked_products env0 (import_req row_free) = Inr ps"
    by (simp add: checked_products_def import_req_def get_def parse_products_def
        order_type_check_def invalid_dispatchFrom_def iterate_def is_array_def
        create_product_def nullish_def missing_product_field_def bad_product_numbers_def
        ifpd_incomplete_def normalize_modelNos_def isNaN_def to_number_def js_prop_def js_or_def
        row_product_def row_free_def default_warranty_def)
  then show ?thesis
    by (auto simp: createOrder_def Let_def env0_def)
qed

text \<open>
  Claim C9 as stated fails: the upload does not apply the checks of a create. A row of
  type B2G without a GEM order number is imported, while the create of the same order is
  refused; a row with a unit price of zero is refused, while the create of the same
  order succeeds.
\<close>

theorem bulk_checks_differ_counterexample:
  "status (oc_response (bulkUploadOrders env0 (bulk_req [row_b2g]) db0)) = 201 \<and>
   oc_response (createOrder env0 (import_req row_b2g) db0) =
     Response 400 (Err ''Missing GEM Order Number'') \<and>
   status (oc_response (bulkUploadOrders env3 (bulk_req [row_free]) db0)) = 400 \<and>
   status (oc_response (createOrder env0 (import_req row_free) db0)) = 201"
  by (simp add: sample_bulk_ok sample_import_create sample_free_create)
     (simp add: bulkUploadOrders_def bulk_req_def sample_row_checks)

subsection \<open>The visibility of orders\<close>

lemma matches_Nil: "matches ord []"
  by (simp add: matches_def)

lemma matches_team_scope:
  "matches ord [team_scope d uid] =
     (get ord ''createdBy'' \<in> set (allUserIds d uid) \<or>
      get ord ''assignedTo'' \<in> set (allUserIds d uid))"
  by (simp add: matches_def object_entry_def team_scope_def alternative_holds_def)

lemma allUserIds_set:
  "set (allUserIds d uid) =
     insert (JStr uid) {JStr (u_id m) | m. m \<in> set (users d) \<and> u_assignedToLeader m = Some uid}"
  by (auto simp: allUserIds_def)

text \<open>The listing: everything for an administrator; otherwise the orders created by or
  assigned to the actor or a user whose leader the actor is.\<close>

lemma getAllOrders_admin:
  "is_admin (req_user req) \<Longrightarrow>
   oc_response (getAllOrders e req d) = Response 200 (OrdersReply (map snd (orders d)))"
  by (simp add: getAllOrders_def getAllOrders_query_def find_orders_def matches_Nil)

lemma getAllOrders_team:
  "\<not> is_admin (req_user req) \<Longrightarrow>
   oc_response (getAllOrders e req d) = Response 200 (OrdersReply
     (filter (\<lambda>ord. get ord ''createdBy'' \<in> set (allUserIds d (actor_id (req_user req))) \<or>
                    get ord ''assignedTo'' \<in> set (allUserIds d (actor_id (req_user req))))
        (map snd (orders d))))"
  by (simp add: getAllOrders_def getAllOrders_query_def find_orders_def matches_team_scope)

text \<open>The counts \<^verbatim>\<open>all\<close>, \<^verbatim>\<open>installation\<close> and \<^verbatim>\<open>production\<close> of the dashboard leave
  cancelled orders out.\<close>

lemma baseQuery_not_cancelled:
  "matches ord (baseQuery d u) \<Longrightarrow> get ord ''dispatchStatus'' \<noteq> JStr ''Order Cancelled''"
  by (auto simp: baseQuery_def matches_def object_entry_def not_cancelled_def team_scope_def
      split: if_splits)

lemma installation_not_cancelled:
  "matches ord (installation_query (baseQuery d u)) \<Longrightarrow>
   get ord ''dispatchStatus'' \<noteq> JStr ''Order Cancelled''"
  by (auto simp: installation_query_def baseQuery_def matches_def object_entry_def
      not_cancelled_def team_scope_def split: if_splits)

lemma production_not_cancelled:
  "matches ord (production_query (baseQuery d u)) \<Longrightarrow>
   get ord ''dispatchStatus'' \<noteq> JStr ''Order Cancelled''"
  by (auto simp: production_query_def baseQuery_def matches_def object_entry_def
      not_cancelled_def team_scope_def split: if_splits)

text \<open>
  Claim C3 fails on the count \<^verbatim>\<open>dispatch\<close> of the dashboard: its filter spreads
  \<^verbatim>\<open>baseQuery\<close> and then gives \<^verbatim>\<open>dispatchStatus\<close> again, which replaces the exclusion of
  cancelled orders. With one order, fulfilled and cancelled, an administrator's
  dashboard counts it under \<^verbatim>\<open>dispatch\<close> (and under nothing else).
\<close>

theorem dashboard_dispatch_counts_cancelled:
  "get order8 ''dispatchStatus'' = JStr ''Order Cancelled'' \<and>
   oc_response (getDashboardCounts env0 (get_req admin) db5) = Response 200 (CountsReply 0 0 0 1)"
  by (simp add: getDashboardCounts_def get_req_def baseQuery_def is_admin_def admin_def
      countDocuments_def find_orders_def db5_def matches_def object_entry_def not_cancelled_def
      installation_query_def production_query_def dispatch_query_def order8_def get_def Let_def)

subsection \<open>Notifications\<close>

lemma latest_sorted:
  "sorted_wrt (\<lambda>a b. n_timestamp b \<le> n_timestamp a) (latest_notifications d)"
proof -
  let ?ys = "sort_key (\<lambda>n. - n_timestamp n) (filter role_All (notifications d))"
  have "sorted (map (\<lambda>n. - n_timestamp n) ?ys)"
    by (rule sorted_sort_key)
  then have "sorted_wrt (\<lambda>a b. n_timestamp b \<le> n_timestamp a) ?ys"
    by (simp add: sorted_map)
  then show ?thesis
    unfolding latest_notifications_def by (rule sorted_wrt_take)
qed

lemma latest_rest:
  "\<exists>rest. mset (latest_notifications d @ rest) = mset (filter role_All (notifications d)) \<and>
     (\<forall>n \<in> set (latest_notifications d). \<forall>m \<in> set rest. n_timestamp m \<le> n_timestamp n)"
proof -
  let ?ys = "sort_key (\<lambda>n. - n_timestamp n) (filter role_All (notifications d))"
  have "sorted (map (\<lambda>n. - n_timestamp n) ?ys)"
    by (rule sorted_sort_key)
  then have "sorted_wrt (\<lambda>a b. n_timestamp b \<le> n_timestamp a) (take 50 ?ys @ drop 50 ?ys)"
    by (simp add: sorted_map)
  then have "\<forall>n \<in> set (take 50 ?ys). \<forall>m \<in> set (drop 50 ?ys). n_timestamp m \<le> n_timestamp n"
    unfolding sorted_wrt_append by blast
  moreover have "mset (take 50 ?ys @ drop 50 ?ys) = mset (filter role_All (notifications d))"
    by simp
  ultimately show ?thesis
    unfolding latest_notifications_def by blast
qed

text \<open>
  Claim C10. Every caller with an id gets the same listing: the notifications of role
  "All", newest first, the 50 most recent of them. Marking read sets the flag of every
  notification of role "All" and clearing deletes every such notification, whoever the
  caller is and whatever user the notification names; the other notifications are left
  as they are.
\<close>

theorem notifications_global:
  "(actor_id (req_user req) \<noteq> [] \<and> actor_id (req_user req') \<noteq> [] \<longrightarrow>
      oc_response (getNotifications e req d) = Response 200 (NotifsReply (latest_notifications d)) \<and>
      oc_response (getNotifications e req d) = oc_response (getNotifications e' req' d)) \<and>
   sorted_wrt (\<lambda>a b. n_timestamp b \<le> n_timestamp a) (latest_notifications d) \<and>
   length (latest_notifications d) =
     min 50 (length (filter (\<lambda>n. n_role n = ''All'') (notifications d))) \<and>
   (\<exists>rest. mset (latest_notifications d @ rest) =
             mset (filter (\<lambda>n. n_role n = ''All'') (notifications d)) \<and>
      (\<forall>n \<in> set (latest_notifications d). \<forall>m \<in> set rest. n_timestamp m \<le> n_timestamp n)) \<and>
   notifications (oc_db (markNotificationsRead e req d)) =
     map (\<lambda>n. if n_role n = ''All'' then n\<lparr>n_isRead := True\<rparr> else n) (notifications d) \<and>
   notifications (oc_db (markNotificationsRead e req d)) =
     notifications (oc_db (markNotificationsRead e' req' d)) \<and>
   notifications (oc_db (clearNotifications e req d)) =
     filter (\<lambda>n. n_role n \<noteq> ''All'') (notifications d) \<and>
   notifications (oc_db (clearNotifications e req d)) =
     notifications (oc_db (clearNotifications e' req' d))"
proof -
  have r: "role_All = (\<lambda>n. n_role n = ''All'')"
    by (auto simp: role_All_def)
  have "length (latest_notifications d) =
     min 50 (length (filter (\<lambda>n. n_role n = ''All'') (notifications d)))"
    by (simp add: latest_notifications_def r)
  moreover note latest_sorted[of d] latest_rest[of d, unfolded r]
  ultimately show ?thesis
    by (simp add: getNotifications_def markNotificationsRead_def clearNotifications_def r)
qed

lemma sample_latest: "latest_notifications db6 = [note2, note1]"
  by (simp add: latest_notifications_def db6_def role_All_def note1_def note2_def note3_def)

text \<open>Three sample notifications, one of another role: a Sales user and an administrator
  get the same two, the newer first.\<close>

theorem notifications_global_witness:
  "actor_id (req_user (get_req sales)) \<noteq> [] \<and> actor_id (req_user (get_req admin)) \<noteq> [] \<and>
   oc_response (getNotifications env0 (get_req sales) db6) = Response 200 (NotifsReply [note2, note1]) \<and>
   oc_response (getNotifications env0 (get_req sales) db6) =
     oc_response (getNotifications env0 (get_req admin) db6) \<and>
   notifications (oc_db (clearNotifications env0 (get_req sales) db6)) = [note3] \<and>
   notifications (oc_db (markNotificationsRead env0 (get_req sales) db6)) =
     [note1\<lparr>n_isRead := True\<rparr>, note2\<lparr>n_isRead := True\<rparr>, note3]"
proof -
  have a: "actor_id (req_user (get_req sales)) \<noteq> []" "actor_id (req_user (get_req admin)) \<noteq> []"
    by (simp_all add: get_req_def sales_def admin_def)
  have n: "notifications db6 = [note1, note2, note3]"
    "n_role note1 = ''All''" "n_role note2 = ''All''" "n_role note3 \<noteq> ''All''"
    by (simp_all add: db6_def note1_def note2_def note3_def)
  from notifications_global[where e = env0 and e' = env0 and req = "get_req sales"
      and req' = "get_req admin" and d = db6] a
  show ?thesis
    by (auto simp: sample_latest n)
qed

end
